theory Spec2Isabelle
  imports Main "HOL-Library.Word"
begin

unbundle bit_operations_syntax

section \<open>Data model\<close>

text \<open>
  The package \<open>bufio\<close> of this repository: a buffered \<open>Reader\<close> and \<open>Writer\<close> over
  abstract byte streams, and a fixed-width binary codec on byte windows.

  Go's \<open>byte\<close>, \<open>uint16\<close>, \<open>uint32\<close> and \<open>uint64\<close> are words of that width; a signed
  \<open>intN\<close> is the same word read with \<open>sint\<close>. Go's \<open>int\<close> (positions and counts) is
  modelled as \<open>int\<close>: every position of the code is bounded by a buffer length as long as
  the wrapped stream reports counts within its contract, so no claim rests on 64-bit
  wrap-around. A \<open>[]byte\<close> is a \<open>byte list\<close> whose capacity equals its length (as \<open>make\<close>
  returns it); the \<open>nil\<close> slice is \<open>[]\<close>. A Go \<open>error\<close> value is an \<open>error option\<close>, \<open>nil\<close>
  being \<open>None\<close>.
\<close>

type_synonym byte = "8 word"

text \<open>
  The sentinel errors of \<open>bufio.go\<close> (lines 19-24, 80), those of package \<open>io\<close> that the
  code uses, and \<open>StreamError k\<close> for any other error a wrapped stream reports.
\<close>

datatype error =
    ErrInvalidUnreadByte
  | ErrInvalidUnreadRune
  | ErrBufferFull
  | ErrNegativeCount
  | ErrNoProgress
  | ErrShortWrite
  | ErrShortBuffer
  | EOF
  | ErrUnexpectedEOF
  | StreamError nat

text \<open>
  A panic aborts the call: the two explicit \<open>panic\<close> calls of \<open>bufio.go\<close> (lines 92, 99
  and 212) and the run-time panics of Go for a slice expression out of bounds, an index
  out of range and \<open>make\<close> with a negative length. A function that can panic returns
  \<open>panic + 'a\<close>, \<open>Inl\<close> being the panic.
\<close>

datatype panic =
    PanicFillFullBuffer
  | PanicNegativeRead
  | PanicSliceBounds
  | PanicIndexRange
  | PanicMakeLen

definition defaultBufSize :: int where
  "defaultBufSize = 4096"

definition minReadBufferSize :: int where
  "minReadBufferSize = 16"

definition maxConsecutiveEmptyReads :: nat where
  "maxConsecutiveEmptyReads = 100"

text \<open>The slice expression \<open>s[lo:hi]\<close> of Go, for a slice whose capacity is its length.\<close>

definition subslice :: "byte list \<Rightarrow> int \<Rightarrow> int \<Rightarrow> panic + byte list" where
  "subslice s lo hi =
     (if 0 \<le> lo \<and> lo \<le> hi \<and> hi \<le> int (length s)
      then Inr (take (nat (hi - lo)) (drop (nat lo) s))
      else Inl PanicSliceBounds)"

text \<open>
  \<open>copy(dst[off:], src)\<close>: the destination after the call. Go copies
  \<open>min (len dst - off) (len src)\<close> bytes; the rest of \<open>dst\<close> is unchanged.
\<close>

definition copy_at :: "byte list \<Rightarrow> nat \<Rightarrow> byte list \<Rightarrow> byte list" where
  "copy_at dst off src =
     take off dst @ take (length dst - off) src @ drop (off + length src) dst"

section \<open>Binary codec\<close>

text \<open>
  Modelled from the spec: the byte orders of Go's \<open>encoding/binary\<close> (standard library,
  not part of the repository's sources), which the codec functions of the repository
  call: \<open>UintN LE\<close> is the N-bit unsigned value with the least-significant byte first,
  \<open>UintN BE\<close> with the most-significant byte first. Each function indexes the window up
  to byte \<open>N/8 - 1\<close> and so panics on a shorter window.
\<close>

definition LittleEndian_Uint16 :: "byte list \<Rightarrow> panic + 16 word" where
  "LittleEndian_Uint16 b =
     (if length b < 2 then Inl PanicIndexRange
      else Inr (ucast (b ! 0) OR push_bit 8 (ucast (b ! 1))))"

definition LittleEndian_PutUint16 :: "byte list \<Rightarrow> 16 word \<Rightarrow> panic + byte list" where
  "LittleEndian_PutUint16 b v =
     (if length b < 2 then Inl PanicIndexRange
      else Inr (b[0 := ucast v, 1 := ucast (drop_bit 8 v)]))"

definition BigEndian_Uint16 :: "byte list \<Rightarrow> panic + 16 word" where
  "BigEndian_Uint16 b =
     (if length b < 2 then Inl PanicIndexRange
      else Inr (ucast (b ! 1) OR push_bit 8 (ucast (b ! 0))))"

definition BigEndian_PutUint16 :: "byte list \<Rightarrow> 16 word \<Rightarrow> panic + byte list" where
  "BigEndian_PutUint16 b v =
     (if length b < 2 then Inl PanicIndexRange
      else Inr (b[0 := ucast (drop_bit 8 v), 1 := ucast v]))"

definition LittleEndian_Uint32 :: "byte list \<Rightarrow> panic + 32 word" where
  "LittleEndian_Uint32 b =
     (if length b < 4 then Inl PanicIndexRange
      else Inr (ucast (b ! 0) OR push_bit 8 (ucast (b ! 1))
                OR push_bit 16 (ucast (b ! 2)) OR push_bit 24 (ucast (b ! 3))))"

definition LittleEndian_PutUint32 :: "byte list \<Rightarrow> 32 word \<Rightarrow> panic + byte list" where
  "LittleEndian_PutUint32 b v =
     (if length b < 4 then Inl PanicIndexRange
      else Inr (b[0 := ucast v, 1 := ucast (drop_bit 8 v),
                  2 := ucast (drop_bit 16 v), 3 := ucast (drop_bit 24 v)]))"

definition BigEndian_Uint32 :: "byte list \<Rightarrow> panic + 32 word" where
  "BigEndian_Uint32 b =
     (if length b < 4 then Inl PanicIndexRange
      else Inr (ucast (b ! 3) OR push_bit 8 (ucast (b ! 2))
                OR push_bit 16 (ucast (b ! 1)) OR push_bit 24 (ucast (b ! 0))))"

definition BigEndian_PutUint32 :: "byte list \<Rightarrow> 32 word \<Rightarrow> panic + byte list" where
  "BigEndian_PutUint32 b v =
     (if length b < 4 then Inl PanicIndexRange
      else Inr (b[0 := ucast (drop_bit 24 v), 1 := ucast (drop_bit 16 v),
                  2 := ucast (drop_bit 8 v), 3 := ucast v]))"

definition LittleEndian_Uint64 :: "byte list \<Rightarrow> panic + 64 word" where
  "LittleEndian_Uint64 b =
     (if length b < 8 then Inl PanicIndexRange
      else Inr (ucast (b ! 0) OR push_bit 8 (ucast (b ! 1))
                OR push_bit 16 (ucast (b ! 2)) OR push_bit 24 (ucast (b ! 3))
                OR push_bit 32 (ucast (b ! 4)) OR push_bit 40 (ucast (b ! 5))
                OR push_bit 48 (ucast (b ! 6)) OR push_bit 56 (ucast (b ! 7))))"

definition LittleEndian_PutUint64 :: "byte list \<Rightarrow> 64 word \<Rightarrow> panic + byte list" where
  "LittleEndian_PutUint64 b v =
     (if length b < 8 then Inl PanicIndexRange
      else Inr (b[0 := ucast v, 1 := ucast (drop_bit 8 v),
                  2 := ucast (drop_bit 16 v), 3 := ucast (drop_bit 24 v),
                  4 := ucast (drop_bit 32 v), 5 := ucast (drop_bit 40 v),
                  6 := ucast (drop_bit 48 v), 7 := ucast (drop_bit 56 v)]))"

definition BigEndian_Uint64 :: "byte list \<Rightarrow> panic + 64 word" where
  "BigEndian_Uint64 b =
     (if length b < 8 then Inl PanicIndexRange
      else Inr (ucast (b ! 7) OR push_bit 8 (ucast (b ! 6))
                OR push_bit 16 (ucast (b ! 5)) OR push_bit 24 (ucast (b ! 4))
                OR push_bit 32 (ucast (b ! 3)) OR push_bit 40 (ucast (b ! 2))
                OR push_bit 48 (ucast (b ! 1)) OR push_bit 56 (ucast (b ! 0))))"

definition BigEndian_PutUint64 :: "byte list \<Rightarrow> 64 word \<Rightarrow> panic + byte list" where
  "BigEndian_PutUint64 b v =
     (if length b < 8 then Inl PanicIndexRange
      else Inr (b[0 := ucast (drop_bit 56 v), 1 := ucast (drop_bit 48 v),
                  2 := ucast (drop_bit 40 v), 3 := ucast (drop_bit 32 v),
                  4 := ucast (drop_bit 24 v), 5 := ucast (drop_bit 16 v),
                  6 := ucast (drop_bit 8 v), 7 := ucast v]))"

text \<open>
  Modelled from the spec: Go's \<open>math.Float32bits\<close>, \<open>math.Float32frombits\<close>,
  \<open>math.Float64bits\<close> and \<open>math.Float64frombits\<close> (standard library): the float variants
  reinterpret the bit pattern of the unsigned integer of the same width, with no rounding
  or validation. A \<open>float32\<close> or \<open>float64\<close> value is therefore modelled by its IEEE-754
  bit pattern: the constructor is \<open>frombits\<close>, the selector is \<open>bits\<close>. Arithmetic on
  floats is not modelled; the code performs none.
\<close>

datatype float32 = Float32frombits (Float32bits: "32 word")

datatype float64 = Float64frombits (Float64bits: "64 word")

text \<open>The codec of the repository (\<open>src/unnamed/part_000\<close>).\<close>

definition GetUint16LE :: "byte list \<Rightarrow> panic + 16 word" where
  "GetUint16LE b = LittleEndian_Uint16 b"

definition PutUint16LE :: "byte list \<Rightarrow> 16 word \<Rightarrow> panic + byte list" where
  "PutUint16LE b v = LittleEndian_PutUint16 b v"

definition GetUint16BE :: "byte list \<Rightarrow> panic + 16 word" where
  "GetUint16BE b = BigEndian_Uint16 b"

definition PutUint16BE :: "byte list \<Rightarrow> 16 word \<Rightarrow> panic + byte list" where
  "PutUint16BE b v = BigEndian_PutUint16 b v"

definition GetUint32LE :: "byte list \<Rightarrow> panic + 32 word" where
  "GetUint32LE b = LittleEndian_Uint32 b"

definition PutUint32LE :: "byte list \<Rightarrow> 32 word \<Rightarrow> panic + byte list" where
  "PutUint32LE b v = LittleEndian_PutUint32 b v"

definition GetUint32BE :: "byte list \<Rightarrow> panic + 32 word" where
  "GetUint32BE b = BigEndian_Uint32 b"

definition PutUint32BE :: "byte list \<Rightarrow> 32 word \<Rightarrow> panic + byte list" where
  "PutUint32BE b v = BigEndian_PutUint32 b v"

definition GetUint64LE :: "byte list \<Rightarrow> panic + 64 word" where
  "GetUint64LE b = LittleEndian_Uint64 b"

definition PutUint64LE :: "byte list \<Rightarrow> 64 word \<Rightarrow> panic + byte list" where
  "PutUint64LE b v = LittleEndian_PutUint64 b v"

definition GetUint64BE :: "byte list \<Rightarrow> panic + 64 word" where
  "GetUint64BE b = BigEndian_Uint64 b"

definition PutUint64BE :: "byte list \<Rightarrow> 64 word \<Rightarrow> panic + byte list" where
  "PutUint64BE b v = BigEndian_PutUint64 b v"

definition GetFloat32BE :: "byte list \<Rightarrow> panic + float32" where
  "GetFloat32BE b = map_sum id Float32frombits (GetUint32BE b)"

definition PutFloat32BE :: "byte list \<Rightarrow> float32 \<Rightarrow> panic + byte list" where
  "PutFloat32BE b v = PutUint32BE b (Float32bits v)"

definition GetFloat32LE :: "byte list \<Rightarrow> panic + float32" where
  "GetFloat32LE b = map_sum id Float32frombits (GetUint32LE b)"

definition PutFloat32LE :: "byte list \<Rightarrow> float32 \<Rightarrow> panic + byte list" where
  "PutFloat32LE b v = PutUint32LE b (Float32bits v)"

definition GetFloat64BE :: "byte list \<Rightarrow> panic + float64" where
  "GetFloat64BE b = map_sum id Float64frombits (GetUint64BE b)"

definition PutFloat64BE :: "byte list \<Rightarrow> float64 \<Rightarrow> panic + byte list" where
  "PutFloat64BE b v = PutUint64BE b (Float64bits v)"

definition GetFloat64LE :: "byte list \<Rightarrow> panic + float64" where
  "GetFloat64LE b = map_sum id Float64frombits (GetUint64LE b)"

definition PutFloat64LE :: "byte list \<Rightarrow> float64 \<Rightarrow> panic + byte list" where
  "PutFloat64LE b v = PutUint64LE b (Float64bits v)"

text \<open>
  \<open>roundtrip put get b v\<close>: encoding \<open>v\<close> into the window \<open>b\<close> succeeds, keeps the
  window's length, and decoding the window gives \<open>v\<close> back.
\<close>

definition roundtrip ::
  "(byte list \<Rightarrow> 'v \<Rightarrow> panic + byte list) \<Rightarrow> (byte list \<Rightarrow> panic + 'v) \<Rightarrow> byte list \<Rightarrow> 'v \<Rightarrow> bool" where
  "roundtrip put get b v =
     (case put b v of
        Inl p \<Rightarrow> False
      | Inr b' \<Rightarrow> length b' = length b \<and> get b' = Inr v)"


section \<open>Buffered Reader\<close>

text \<open>
  The wrapped \<open>io.Reader\<close> is an arbitrary state machine: in state \<open>s\<close>, \<open>Read(p)\<close> with
  \<open>len(p) = k\<close> is \<open>f s k = ((n, data, e), s')\<close>: the count \<open>n\<close> and the error \<open>e\<close> it
  returns, the bytes \<open>data\<close> it stored at the front of \<open>p\<close> (those beyond \<open>len(p)\<close> are
  dropped), and the stream's next state. Nothing is assumed of \<open>n\<close>: a stream may break
  the contract \<open>0 \<le> n \<le> len(p)\<close>. The state after a call differs from the state
  before it whenever the stream says so, for instance when it counts its calls.
\<close>

type_synonym 's io_Reader = "'s \<Rightarrow> nat \<Rightarrow> (int \<times> byte list \<times> error option) \<times> 's"

record 's Reader =
  buf :: "byte list"
  rd :: 's
  r :: int
  w :: int
  err :: "error option"

definition reset :: "byte list \<Rightarrow> 's \<Rightarrow> 's Reader" where
  "reset bs s = \<lparr>buf = bs, rd = s, r = 0, w = 0, err = None\<rparr>"

text \<open>
  \<open>NewReaderSize\<close> for a stream that is not itself a \<open>*Reader\<close> (the type assertion of
  line 44 fails; the streams of this model are never Readers): a zeroed buffer of at
  least \<open>minReadBufferSize\<close> bytes.
\<close>

definition NewReaderSize :: "'s \<Rightarrow> int \<Rightarrow> 's Reader" where
  "NewReaderSize s sz =
     reset (replicate (nat (if sz < minReadBufferSize then minReadBufferSize else sz)) 0) s"

definition NewReader :: "'s \<Rightarrow> 's Reader" where
  "NewReader s = NewReaderSize s defaultBufSize"

definition Reset :: "'s Reader \<Rightarrow> 's \<Rightarrow> 's Reader" where
  "Reset b s = reset (buf b) s"

definition ResetBuffer :: "'s Reader \<Rightarrow> 's \<Rightarrow> byte list \<Rightarrow> 's Reader" where
  "ResetBuffer b s bs = reset bs s"

text \<open>The read loop of \<open>fill\<close> (lines 96-110); the first argument is the loop counter \<open>i\<close>.\<close>

fun fill_loop :: "nat \<Rightarrow> 's io_Reader \<Rightarrow> 's Reader \<Rightarrow> panic + 's Reader" where
  "fill_loop 0 f b = Inr (b\<lparr>err := Some ErrNoProgress\<rparr>)"
| "fill_loop (Suc i) f b =
     (case subslice (buf b) (w b) (int (length (buf b))) of
        Inl x \<Rightarrow> Inl x
      | Inr dst \<Rightarrow>
          (case f (rd b) (length dst) of
             ((n, data, e), s') \<Rightarrow>
               if n < 0 then Inl PanicNegativeRead
               else let b' = b\<lparr>buf := copy_at (buf b) (nat (w b)) data, rd := s', w := w b + n\<rparr>
                 in if e \<noteq> None then Inr (b'\<lparr>err := e\<rparr>)
                    else if n > 0 then Inr b'
                    else fill_loop i f b'))"

definition fill :: "'s io_Reader \<Rightarrow> 's Reader \<Rightarrow> panic + 's Reader" where
  "fill f b =
     (case (if r b > 0
            then (case subslice (buf b) (r b) (w b) of
                    Inl x \<Rightarrow> Inl x
                  | Inr src \<Rightarrow> Inr (b\<lparr>buf := copy_at (buf b) 0 src, w := w b - r b, r := 0\<rparr>))
            else Inr b) of
        Inl x \<Rightarrow> Inl x
      | Inr b1 \<Rightarrow>
          if w b1 \<ge> int (length (buf b1)) then Inl PanicFillFullBuffer
          else fill_loop maxConsecutiveEmptyReads f b1)"

definition readErr :: "'s Reader \<Rightarrow> error option \<times> 's Reader" where
  "readErr b = (err b, b\<lparr>err := None\<rparr>)"

definition Buffered :: "'s Reader \<Rightarrow> int" where
  "Buffered b = w b - r b"

lemma fill_loop_progress:
  "fill_loop i f b = Inr b' \<Longrightarrow>
     r b' = r b \<and> w b \<le> w b' \<and> (err b' = None \<longrightarrow> err b = None \<and> w b < w b')"
proof (induction i arbitrary: b)
  case 0
  then show ?case by auto
next
  case (Suc i)
  then show ?case
    by (fastforce simp: Let_def split: sum.splits prod.splits if_splits)
qed

lemma fill_progress:
  assumes "fill f b = Inr b'"
  shows "Buffered b \<le> Buffered b' \<and> (err b' = None \<longrightarrow> err b = None \<and> Buffered b < Buffered b')"
  using assms
  by (auto simp: fill_def Buffered_def split: sum.splits if_splits dest!: fill_loop_progress)

function Peek_loop :: "'s io_Reader \<Rightarrow> 's Reader \<Rightarrow> int \<Rightarrow> panic + 's Reader" where
  "Peek_loop f b n =
     (if w b - r b < n \<and> err b = None
      then (case fill f b of Inl x \<Rightarrow> Inl x | Inr b' \<Rightarrow> Peek_loop f b' n)
      else Inr b)"
  by pat_completeness auto
termination
proof (relation "measure (\<lambda>(f, b, n). nat (n - Buffered b) + (if err b = None then 1 else 0))")
  show "wf (measure (\<lambda>(f, b, n). nat (n - Buffered b) + (if err b = None then 1 else 0)))"
    by simp
next
  fix f :: "'s io_Reader" and b b' :: "'s Reader" and n :: int
  assume "w b - r b < n \<and> err b = None" and "fill f b = Inr b'"
  then show "((f, b', n), (f, b, n))
      \<in> measure (\<lambda>(f, b, n). nat (n - Buffered b) + (if err b = None then 1 else 0))"
    using fill_progress [of f b b'] by (auto simp: Buffered_def)
qed

declare Peek_loop.simps [simp del]

definition Peek :: "'s io_Reader \<Rightarrow> 's Reader \<Rightarrow> int \<Rightarrow> panic + ((byte list \<times> error option) \<times> 's Reader)" where
  "Peek f b n =
     (if n < 0 then Inr (([], Some ErrNegativeCount), b)
      else if n > int (length (buf b)) then Inr (([], Some ErrBufferFull), b)
      else
        (case Peek_loop f b n of
           Inl x \<Rightarrow> Inl x
         | Inr b1 \<Rightarrow>
             let avail = w b1 - r b1 in
             if avail < n
             then (case readErr b1 of
                     (e, b2) \<Rightarrow>
                       (case subslice (buf b2) (r b2) (r b2 + avail) of
                          Inl x \<Rightarrow> Inl x
                        | Inr d \<Rightarrow> Inr ((d, if e = None then Some ErrBufferFull else e), b2)))
             else (case subslice (buf b1) (r b1) (r b1 + n) of
                     Inl x \<Rightarrow> Inl x
                   | Inr d \<Rightarrow> Inr ((d, None), b1))))"

definition Pop :: "'s io_Reader \<Rightarrow> 's Reader \<Rightarrow> int \<Rightarrow> panic + ((byte list \<times> error option) \<times> 's Reader)" where
  "Pop f b n =
     (case Peek f b n of
        Inl x \<Rightarrow> Inl x
      | Inr ((d, e), b') \<Rightarrow>
          if e = None then Inr ((d, e), b'\<lparr>r := r b' + n\<rparr>)
          else Inr (([], e), b'))"




text \<open>
  The tail of \<open>Read\<close> (lines 222-225): \<open>n = copy(p, b.buf[b.r:b.w])\<close>, then the cursor
  advances by \<open>n\<close>.
\<close>

definition Read_copy :: "'s Reader \<Rightarrow> byte list \<Rightarrow> panic + ((int \<times> byte list \<times> error option) \<times> 's Reader)" where
  "Read_copy b p =
     (case subslice (buf b) (r b) (w b) of
        Inl x \<Rightarrow> Inl x
      | Inr src \<Rightarrow>
          let n = int (min (length p) (length src))
          in Inr ((n, copy_at p 0 src, None), b\<lparr>r := r b + n\<rparr>))"

text \<open>\<open>Read(p)\<close> returns the count, the destination \<open>p\<close> after the call, and the error.\<close>

definition Read :: "'s io_Reader \<Rightarrow> 's Reader \<Rightarrow> byte list \<Rightarrow> panic + ((int \<times> byte list \<times> error option) \<times> 's Reader)" where
  "Read f b p =
     (if length p = 0 then (case readErr b of (e, b') \<Rightarrow> Inr ((0, p, e), b'))
      else if r b = w b then
        (if err b \<noteq> None then (case readErr b of (e, b') \<Rightarrow> Inr ((0, p, e), b'))
         else if length p \<ge> length (buf b) then
           (case f (rd b) (length p) of
              ((n, data, e), s') \<Rightarrow>
                if n < 0 then Inl PanicNegativeRead
                else (case readErr (b\<lparr>rd := s', err := e\<rparr>) of
                        (e', b') \<Rightarrow> Inr ((n, copy_at p 0 data, e'), b')))
         else
           (case fill f b of
              Inl x \<Rightarrow> Inl x
            | Inr b1 \<Rightarrow>
                if r b1 = w b1 then (case readErr b1 of (e, b') \<Rightarrow> Inr ((0, p, e), b'))
                else Read_copy b1 p))
      else Read_copy b p)"








text \<open>
  The fixed-width read helpers (lines 272-360) share one body:
  \<open>if b, err := reader.Pop(k); err == nil { return get(b), nil } else { return zero, err }\<close>.
  \<open>popDecode\<close> is that body; each helper below instantiates the width \<open>k\<close>, the decoder
  and the value it returns on failure.
\<close>

definition popDecode ::
  "'s io_Reader \<Rightarrow> 's Reader \<Rightarrow> int \<Rightarrow> (byte list \<Rightarrow> panic + 'v) \<Rightarrow> 'v
     \<Rightarrow> panic + (('v \<times> error option) \<times> 's Reader)" where
  "popDecode f b k get zero =
     (case Pop f b k of
        Inl x \<Rightarrow> Inl x
      | Inr ((d, e), b') \<Rightarrow>
          if e = None
          then (case get d of Inl x \<Rightarrow> Inl x | Inr v \<Rightarrow> Inr ((v, None), b'))
          else Inr ((zero, e), b'))"

text \<open>\<open>b[0]\<close>, which panics on an empty slice.\<close>

definition index0 :: "byte list \<Rightarrow> panic + byte" where
  "index0 d = (if length d < 1 then Inl PanicIndexRange else Inr (d ! 0))"

text \<open>
  \<open>ReadByte\<close> (lines 261-270) first asks whether the wrapped stream has a \<open>ReadByte\<close>
  of its own (the type assertion \<open>reader.rd.(io.ByteReader)\<close>) and, if so, calls it past
  the buffer; \<open>byteReader\<close> is that method when the stream has one.
\<close>

definition ReadByte ::
  "('s \<Rightarrow> (byte \<times> error option) \<times> 's) option \<Rightarrow> 's io_Reader \<Rightarrow> 's Reader
     \<Rightarrow> panic + ((byte \<times> error option) \<times> 's Reader)" where
  "ReadByte byteReader f b =
     (case byteReader of
        Some readByte \<Rightarrow> (case readByte (rd b) of ((c, e), s') \<Rightarrow> Inr ((c, e), b\<lparr>rd := s'\<rparr>))
      | None \<Rightarrow> popDecode f b 1 index0 0)"

definition ReadUint8 :: "'s io_Reader \<Rightarrow> 's Reader \<Rightarrow> panic + ((8 word \<times> error option) \<times> 's Reader)" where
  "ReadUint8 f b = popDecode f b 1 index0 0"

definition ReadUint16BE :: "'s io_Reader \<Rightarrow> 's Reader \<Rightarrow> panic + ((16 word \<times> error option) \<times> 's Reader)" where
  "ReadUint16BE f b = popDecode f b 2 GetUint16BE 0"

definition ReadUint16LE :: "'s io_Reader \<Rightarrow> 's Reader \<Rightarrow> panic + ((16 word \<times> error option) \<times> 's Reader)" where
  "ReadUint16LE f b = popDecode f b 2 GetUint16LE 0"

definition ReadUint32BE :: "'s io_Reader \<Rightarrow> 's Reader \<Rightarrow> panic + ((32 word \<times> error option) \<times> 's Reader)" where
  "ReadUint32BE f b = popDecode f b 4 GetUint32BE 0"

definition ReadUint32LE :: "'s io_Reader \<Rightarrow> 's Reader \<Rightarrow> panic + ((32 word \<times> error option) \<times> 's Reader)" where
  "ReadUint32LE f b = popDecode f b 4 GetUint32LE 0"

definition ReadUint64BE :: "'s io_Reader \<Rightarrow> 's Reader \<Rightarrow> panic + ((64 word \<times> error option) \<times> 's Reader)" where
  "ReadUint64BE f b = popDecode f b 8 GetUint64BE 0"

definition ReadUint64LE :: "'s io_Reader \<Rightarrow> 's Reader \<Rightarrow> panic + ((64 word \<times> error option) \<times> 's Reader)" where
  "ReadUint64LE f b = popDecode f b 8 GetUint64LE 0"

text \<open>The float helpers return the literal \<open>0\<close> on failure: the float with all bits zero.\<close>

definition ReadFloat32BE :: "'s io_Reader \<Rightarrow> 's Reader \<Rightarrow> panic + ((float32 \<times> error option) \<times> 's Reader)" where
  "ReadFloat32BE f b = popDecode f b 4 GetFloat32BE (Float32frombits 0)"

definition ReadFloat32LE :: "'s io_Reader \<Rightarrow> 's Reader \<Rightarrow> panic + ((float32 \<times> error option) \<times> 's Reader)" where
  "ReadFloat32LE f b = popDecode f b 4 GetFloat32LE (Float32frombits 0)"

definition ReadFloat64BE :: "'s io_Reader \<Rightarrow> 's Reader \<Rightarrow> panic + ((float64 \<times> error option) \<times> 's Reader)" where
  "ReadFloat64BE f b = popDecode f b 8 GetFloat64BE (Float64frombits 0)"

definition ReadFloat64LE :: "'s io_Reader \<Rightarrow> 's Reader \<Rightarrow> panic + ((float64 \<times> error option) \<times> 's Reader)" where
  "ReadFloat64LE f b = popDecode f b 8 GetFloat64LE (Float64frombits 0)"

text \<open>
  The signed helpers (lines 362-416) wrap the unsigned ones:
  \<open>if i, err := reader.ReadUintN(); err == nil { return intN(i), nil } else { return -1, err }\<close>.
  The conversion \<open>intN(i)\<close> keeps the bits; a signed value is the word read with \<open>sint\<close>.
\<close>

definition asSigned ::
  "panic + (('a::len word \<times> error option) \<times> 's Reader)
     \<Rightarrow> panic + (('a word \<times> error option) \<times> 's Reader)" where
  "asSigned res =
     (case res of
        Inl x \<Rightarrow> Inl x
      | Inr ((i, e), b') \<Rightarrow> if e = None then Inr ((i, None), b') else Inr ((- 1, e), b'))"

definition ReadInt8 :: "'s io_Reader \<Rightarrow> 's Reader \<Rightarrow> panic + ((8 word \<times> error option) \<times> 's Reader)" where
  "ReadInt8 f b = asSigned (ReadUint8 f b)"

definition ReadInt16BE :: "'s io_Reader \<Rightarrow> 's Reader \<Rightarrow> panic + ((16 word \<times> error option) \<times> 's Reader)" where
  "ReadInt16BE f b = asSigned (ReadUint16BE f b)"

definition ReadInt16LE :: "'s io_Reader \<Rightarrow> 's Reader \<Rightarrow> panic + ((16 word \<times> error option) \<times> 's Reader)" where
  "ReadInt16LE f b = asSigned (ReadUint16LE f b)"

definition ReadInt32BE :: "'s io_Reader \<Rightarrow> 's Reader \<Rightarrow> panic + ((32 word \<times> error option) \<times> 's Reader)" where
  "ReadInt32BE f b = asSigned (ReadUint32BE f b)"

definition ReadInt32LE :: "'s io_Reader \<Rightarrow> 's Reader \<Rightarrow> panic + ((32 word \<times> error option) \<times> 's Reader)" where
  "ReadInt32LE f b = asSigned (ReadUint32LE f b)"

definition ReadInt64BE :: "'s io_Reader \<Rightarrow> 's Reader \<Rightarrow> panic + ((64 word \<times> error option) \<times> 's Reader)" where
  "ReadInt64BE f b = asSigned (ReadUint64BE f b)"

definition ReadInt64LE :: "'s io_Reader \<Rightarrow> 's Reader \<Rightarrow> panic + ((64 word \<times> error option) \<times> 's Reader)" where
  "ReadInt64LE f b = asSigned (ReadUint64LE f b)"

section \<open>Buffered Writer\<close>

text \<open>
  The wrapped \<open>io.Writer\<close> is an arbitrary state machine: in state \<open>s\<close>, \<open>Write(p)\<close> is
  \<open>g s p = ((n, e), s')\<close>, the count and the error it returns and its next state. Nothing
  is assumed of \<open>n\<close>. The fields of the \<open>Writer\<close> struct are \<open>err\<close>, \<open>buf\<close>, \<open>n\<close> and
  \<open>wr\<close>; the first three are named \<open>werr\<close>, \<open>wbuf\<close> and \<open>wn\<close> here, apart from the
  Reader's fields and from the variable \<open>n\<close>.
\<close>

type_synonym 's io_Writer = "'s \<Rightarrow> byte list \<Rightarrow> (int \<times> error option) \<times> 's"

record 's Writer =
  werr :: "error option"
  wbuf :: "byte list"
  wn :: int
  wr :: 's

text \<open>\<open>NewWriterSize\<close> for a stream that is not itself a \<open>*Writer\<close>.\<close>

definition NewWriterSize :: "'s \<Rightarrow> int \<Rightarrow> 's Writer" where
  "NewWriterSize s sz =
     \<lparr>werr = None, wbuf = replicate (nat (if sz \<le> 0 then defaultBufSize else sz)) 0,
      wn = 0, wr = s\<rparr>"

definition NewWriter :: "'s \<Rightarrow> 's Writer" where
  "NewWriter s = NewWriterSize s defaultBufSize"



definition flush :: "'s io_Writer \<Rightarrow> 's Writer \<Rightarrow> panic + (error option \<times> 's Writer)" where
  "flush g b =
     (if werr b \<noteq> None then Inr (werr b, b)
      else if wn b = 0 then Inr (None, b)
      else
        (case subslice (wbuf b) 0 (wn b) of
           Inl x \<Rightarrow> Inl x
         | Inr p \<Rightarrow>
             (case g (wr b) p of
                ((n, e0), s') \<Rightarrow>
                  let e = (if n < wn b \<and> e0 = None then Some ErrShortWrite else e0)
                  in if e \<noteq> None
                     then (if n > 0 \<and> n < wn b
                           then (case subslice (wbuf b) n (wn b) of
                                   Inl x \<Rightarrow> Inl x
                                 | Inr src \<Rightarrow>
                                     Inr (e, b\<lparr>werr := e, wbuf := copy_at (wbuf b) 0 src,
                                               wn := wn b - n, wr := s'\<rparr>))
                           else Inr (e, b\<lparr>werr := e, wn := wn b - n, wr := s'\<rparr>))
                     else Inr (None, b\<lparr>wn := 0, wr := s'\<rparr>))))"


definition Available :: "'s Writer \<Rightarrow> int" where
  "Available b = int (length (wbuf b)) - wn b"

definition Writer_Buffered :: "'s Writer \<Rightarrow> int" where
  "Writer_Buffered b = wn b"

text \<open>
  The loop of \<open>Write\<close> (lines 514-527), with the rest of \<open>p\<close> and the running count \<open>nn\<close>.
  On a stream that accepts no byte and reports no error the loop does not end: the
  result is \<open>None\<close> then.
\<close>

partial_function (option) Write_loop ::
  "'s io_Writer \<Rightarrow> 's Writer \<Rightarrow> byte list \<Rightarrow> int \<Rightarrow> (panic + (byte list \<times> int \<times> 's Writer)) option" where
  "Write_loop g b p nn =
     (if int (length p) > Available b \<and> werr b = None
      then (if Writer_Buffered b = 0
            then (case g (wr b) p of
                    ((n, e), s') \<Rightarrow>
                      (case subslice p n (int (length p)) of
                         Inl x \<Rightarrow> Some (Inl x)
                       | Inr p' \<Rightarrow> Write_loop g (b\<lparr>werr := e, wr := s'\<rparr>) p' (nn + n)))
            else (case subslice (wbuf b) (wn b) (int (length (wbuf b))) of
                    Inl x \<Rightarrow> Some (Inl x)
                  | Inr dst \<Rightarrow>
                      (case flush g (b\<lparr>wbuf := copy_at (wbuf b) (nat (wn b)) p,
                                       wn := wn b + int (min (length dst) (length p))\<rparr>) of
                         Inl x \<Rightarrow> Some (Inl x)
                       | Inr (e, b') \<Rightarrow>
                           Write_loop g b' (drop (min (length dst) (length p)) p)
                             (nn + int (min (length dst) (length p))))))
      else Some (Inr (p, nn, b)))"

declare Write_loop.simps [code]

definition Write ::
  "'s io_Writer \<Rightarrow> 's Writer \<Rightarrow> byte list \<Rightarrow> (panic + ((int \<times> error option) \<times> 's Writer)) option" where
  "Write g b p =
     (case Write_loop g b p 0 of
        None \<Rightarrow> None
      | Some (Inl x) \<Rightarrow> Some (Inl x)
      | Some (Inr (p', nn, b1)) \<Rightarrow>
          if werr b1 \<noteq> None then Some (Inr ((nn, werr b1), b1))
          else
            (case subslice (wbuf b1) (wn b1) (int (length (wbuf b1))) of
               Inl x \<Rightarrow> Some (Inl x)
             | Inr dst \<Rightarrow>
                 let n = int (min (length dst) (length p'))
                 in Some (Inr ((nn + n, None),
                               b1\<lparr>wbuf := copy_at (wbuf b1) (nat (wn b1)) p', wn := wn b1 + n\<rparr>))))"

text \<open>
  The loop of \<open>Writer.Peek\<close> (lines 548-550). \<open>Writer.Peek\<close> returns a window into
  \<open>b.buf\<close> that the caller fills in place: the window \<open>b.buf[lo:hi]\<close> is returned as
  \<open>Some (lo, hi)\<close>, the \<open>nil\<close> slice as \<open>None\<close>.
\<close>

partial_function (option) Writer_Peek_loop ::
  "'s io_Writer \<Rightarrow> 's Writer \<Rightarrow> int \<Rightarrow> (panic + 's Writer) option" where
  "Writer_Peek_loop g b n =
     (if Available b < n \<and> werr b = None
      then (case flush g b of
              Inl x \<Rightarrow> Some (Inl x)
            | Inr (e, b') \<Rightarrow> Writer_Peek_loop g b' n)
      else Some (Inr b))"

declare Writer_Peek_loop.simps [code]

definition Writer_Peek ::
  "'s io_Writer \<Rightarrow> 's Writer \<Rightarrow> int
     \<Rightarrow> (panic + (((int \<times> int) option \<times> error option) \<times> 's Writer)) option" where
  "Writer_Peek g b n =
     (if n < 0 then Some (Inr ((None, Some ErrNegativeCount), b))
      else if n > int (length (wbuf b)) then Some (Inr ((None, Some ErrBufferFull), b))
      else
        (case Writer_Peek_loop g b n of
           None \<Rightarrow> None
         | Some (Inl x) \<Rightarrow> Some (Inl x)
         | Some (Inr b1) \<Rightarrow>
             if werr b1 \<noteq> None then Some (Inr ((None, werr b1), b1))
             else
               (case subslice (wbuf b1) (wn b1) (wn b1 + n) of
                  Inl x \<Rightarrow> Some (Inl x)
                | Inr d \<Rightarrow>
                    Some (Inr ((Some (wn b1, wn b1 + n), None), b1\<lparr>wn := wn b1 + n\<rparr>)))))"

definition WriteBytes ::
  "'s io_Writer \<Rightarrow> 's Writer \<Rightarrow> byte list \<Rightarrow> (panic + ((int \<times> error option) \<times> 's Writer)) option" where
  "WriteBytes g b p = Write g b p"

definition WriteString ::
  "'s io_Writer \<Rightarrow> 's Writer \<Rightarrow> byte list \<Rightarrow> (panic + ((int \<times> error option) \<times> 's Writer)) option" where
  "WriteString g b s = WriteBytes g b s"

text \<open>
  The fixed-width write helpers (lines 569-667) share one body:
  \<open>if b, err := writer.Peek(k); err == nil { put(b, v); return k, nil } else { return -1, err }\<close>.
  \<open>peekEncode\<close> is that body, with the value returned on failure as its last argument;
  \<open>put\<close> writes through the window into the Writer's buffer.
\<close>

definition peekEncode ::
  "'s io_Writer \<Rightarrow> 's Writer \<Rightarrow> int \<Rightarrow> (byte list \<Rightarrow> 'v \<Rightarrow> panic + byte list) \<Rightarrow> 'v \<Rightarrow> int
     \<Rightarrow> (panic + ((int \<times> error option) \<times> 's Writer)) option" where
  "peekEncode g b k put v failed =
     (case Writer_Peek g b k of
        None \<Rightarrow> None
      | Some (Inl x) \<Rightarrow> Some (Inl x)
      | Some (Inr ((d, e), b')) \<Rightarrow>
          if e = None
          then (case d of
                  None \<Rightarrow> Some (Inl PanicIndexRange)
                | Some (lo, hi) \<Rightarrow>
                    (case subslice (wbuf b') lo hi of
                       Inl x \<Rightarrow> Some (Inl x)
                     | Inr win \<Rightarrow>
                         (case put win v of
                            Inl x \<Rightarrow> Some (Inl x)
                          | Inr win' \<Rightarrow>
                              Some (Inr ((k, None), b'\<lparr>wbuf := copy_at (wbuf b') (nat lo) win'\<rparr>)))))
          else Some (Inr ((failed, e), b')))"

text \<open>\<open>b[0] = v\<close>, which panics on an empty slice.\<close>

definition putIndex0 :: "byte list \<Rightarrow> byte \<Rightarrow> panic + byte list" where
  "putIndex0 d v = (if length d < 1 then Inl PanicIndexRange else Inr (d[0 := v]))"

definition WriteUint8 :: "'s io_Writer \<Rightarrow> 's Writer \<Rightarrow> 8 word \<Rightarrow> (panic + ((int \<times> error option) \<times> 's Writer)) option" where
  "WriteUint8 g b v = peekEncode g b 1 putIndex0 v (- 1)"

definition WriteUint16BE :: "'s io_Writer \<Rightarrow> 's Writer \<Rightarrow> 16 word \<Rightarrow> (panic + ((int \<times> error option) \<times> 's Writer)) option" where
  "WriteUint16BE g b v = peekEncode g b 2 PutUint16BE v (- 1)"

definition WriteUint16LE :: "'s io_Writer \<Rightarrow> 's Writer \<Rightarrow> 16 word \<Rightarrow> (panic + ((int \<times> error option) \<times> 's Writer)) option" where
  "WriteUint16LE g b v = peekEncode g b 2 PutUint16LE v (- 1)"

definition WriteUint32BE :: "'s io_Writer \<Rightarrow> 's Writer \<Rightarrow> 32 word \<Rightarrow> (panic + ((int \<times> error option) \<times> 's Writer)) option" where
  "WriteUint32BE g b v = peekEncode g b 4 PutUint32BE v (- 1)"

definition WriteUint32LE :: "'s io_Writer \<Rightarrow> 's Writer \<Rightarrow> 32 word \<Rightarrow> (panic + ((int \<times> error option) \<times> 's Writer)) option" where
  "WriteUint32LE g b v = peekEncode g b 4 PutUint32LE v (- 1)"

definition WriteUint64BE :: "'s io_Writer \<Rightarrow> 's Writer \<Rightarrow> 64 word \<Rightarrow> (panic + ((int \<times> error option) \<times> 's Writer)) option" where
  "WriteUint64BE g b v = peekEncode g b 8 PutUint64BE v (- 1)"

definition WriteUint64LE :: "'s io_Writer \<Rightarrow> 's Writer \<Rightarrow> 64 word \<Rightarrow> (panic + ((int \<times> error option) \<times> 's Writer)) option" where
  "WriteUint64LE g b v = peekEncode g b 8 PutUint64LE v (- 1)"

definition WriteFloat32BE :: "'s io_Writer \<Rightarrow> 's Writer \<Rightarrow> float32 \<Rightarrow> (panic + ((int \<times> error option) \<times> 's Writer)) option" where
  "WriteFloat32BE g b v = peekEncode g b 4 PutFloat32BE v (- 1)"

definition WriteFloat32LE :: "'s io_Writer \<Rightarrow> 's Writer \<Rightarrow> float32 \<Rightarrow> (panic + ((int \<times> error option) \<times> 's Writer)) option" where
  "WriteFloat32LE g b v = peekEncode g b 4 PutFloat32LE v (- 1)"

definition WriteFloat64BE :: "'s io_Writer \<Rightarrow> 's Writer \<Rightarrow> float64 \<Rightarrow> (panic + ((int \<times> error option) \<times> 's Writer)) option" where
  "WriteFloat64BE g b v = peekEncode g b 8 PutFloat64BE v (- 1)"

definition WriteFloat64LE :: "'s io_Writer \<Rightarrow> 's Writer \<Rightarrow> float64 \<Rightarrow> (panic + ((int \<times> error option) \<times> 's Writer)) option" where
  "WriteFloat64LE g b v = peekEncode g b 8 PutFloat64LE v (- 1)"

text \<open>
  The signed and \<open>uint\<close> variants (lines 669-677) convert the value to the unsigned type
  of the same width, which keeps the bits, and call the unsigned helper; \<open>uint\<close> is taken
  as 64 bits wide.
\<close>

definition WriteInt8 :: "'s io_Writer \<Rightarrow> 's Writer \<Rightarrow> 8 word \<Rightarrow> (panic + ((int \<times> error option) \<times> 's Writer)) option" where
  "WriteInt8 g b v = WriteUint8 g b v"

definition WriteInt16BE :: "'s io_Writer \<Rightarrow> 's Writer \<Rightarrow> 16 word \<Rightarrow> (panic + ((int \<times> error option) \<times> 's Writer)) option" where
  "WriteInt16BE g b v = WriteUint16BE g b v"

definition WriteInt16LE :: "'s io_Writer \<Rightarrow> 's Writer \<Rightarrow> 16 word \<Rightarrow> (panic + ((int \<times> error option) \<times> 's Writer)) option" where
  "WriteInt16LE g b v = WriteUint16LE g b v"

definition WriteInt32BE :: "'s io_Writer \<Rightarrow> 's Writer \<Rightarrow> 32 word \<Rightarrow> (panic + ((int \<times> error option) \<times> 's Writer)) option" where
  "WriteInt32BE g b v = WriteUint32BE g b v"

definition WriteInt32LE :: "'s io_Writer \<Rightarrow> 's Writer \<Rightarrow> 32 word \<Rightarrow> (panic + ((int \<times> error option) \<times> 's Writer)) option" where
  "WriteInt32LE g b v = WriteUint32LE g b v"

definition WriteInt64BE :: "'s io_Writer \<Rightarrow> 's Writer \<Rightarrow> 64 word \<Rightarrow> (panic + ((int \<times> error option) \<times> 's Writer)) option" where
  "WriteInt64BE g b v = WriteUint64BE g b v"

definition WriteInt64LE :: "'s io_Writer \<Rightarrow> 's Writer \<Rightarrow> 64 word \<Rightarrow> (panic + ((int \<times> error option) \<times> 's Writer)) option" where
  "WriteInt64LE g b v = WriteUint64LE g b v"

definition WriteUintBE :: "'s io_Writer \<Rightarrow> 's Writer \<Rightarrow> 64 word \<Rightarrow> (panic + ((int \<times> error option) \<times> 's Writer)) option" where
  "WriteUintBE g b v = WriteUint64BE g b v"

definition WriteUintLE :: "'s io_Writer \<Rightarrow> 's Writer \<Rightarrow> 64 word \<Rightarrow> (panic + ((int \<times> error option) \<times> 's Writer)) option" where
  "WriteUintLE g b v = WriteUint64LE g b v"


section \<open>Test streams\<close>

text \<open>
  A scripted readable stream: its state is the list of the results its next \<open>Read\<close>
  calls return, one per call, whatever the size of the destination; when the script is
  used up it reports \<open>EOF\<close>. The length of the remaining script counts the calls.
\<close>

type_synonym script = "(int \<times> byte list \<times> error option) list"

fun scripted :: "script io_Reader" where
  "scripted [] k = ((0, [], Some EOF), [])"
| "scripted (x # xs) k = (x, xs)"

text \<open>
  A scripted writable stream: its state is the list of the results of its next \<open>Write\<close>
  calls; when the script is used up it accepts every byte.
\<close>

fun scripted_sink :: "(int \<times> error option) list io_Writer" where
  "scripted_sink [] p = ((int (length p), None), [])"
| "scripted_sink (x # xs) p = (x, xs)"







text \<open>Further scripts and the Readers and Writers of the examples below.\<close>

definition one_byte :: script where
  "one_byte = [(1, [7], None)]"

definition four_bytes :: script where
  "four_bytes = [(4, [1, 2, 3, 4], None)]"

definition idle_once :: script where
  "idle_once = [(0, [], None)]"

definition lazy :: script where
  "lazy = [(0, [], None), (2, [5, 6], None)]"










definition small_reader :: "script Reader" where
  "small_reader = ResetBuffer (NewReaderSize one_byte 16) one_byte (replicate 4 0)"

definition small_writer :: "(int \<times> error option) list Writer" where
  "small_writer = (NewWriterSize [(0, None)] 4)\<lparr>wn := 2\<rparr>"



definition broken_writer :: "(int \<times> error option) list Writer" where
  "broken_writer = (NewWriterSize [] 16)\<lparr>werr := Some ErrShortWrite\<rparr>"



text \<open>
  \<open>directRead b p\<close>: \<open>Read(p)\<close> takes its bypass (lines 207-215): the buffer is
  empty, no error is pending and the destination is at least as large as the buffer.
\<close>

definition directRead :: "'s Reader \<Rightarrow> byte list \<Rightarrow> bool" where
  "directRead b p = (r b = w b \<and> err b = None \<and> length (buf b) \<le> length p)"



section \<open>Codec: lemmas on the round trip\<close>

lemma byte_of_word: "(ucast (ucast v :: byte) :: 'a::len word) = v AND mask 8"
  by (rule bit_word_eqI) (auto simp: bit_simps)

lemma byte_at: "push_bit k (drop_bit k v AND mask 8) = (v :: 'a::len word) AND push_bit k (mask 8)"
  by (rule bit_word_eqI) (auto simp: bit_simps)

lemma bytes16:
  "(ucast (ucast v :: byte) :: 16 word) OR push_bit 8 (ucast (ucast (drop_bit 8 v) :: byte)) = v"
proof -
  have m: "(mask 8 :: 16 word) OR push_bit 8 (mask 8) = - 1"
    by (simp add: mask_eq_exp_minus_1 push_bit_eq_mult)
  have "v AND (mask 8 OR push_bit 8 (mask 8)) = v"
    by (simp only: m bit.conj_one_right)
  then show ?thesis
    by (simp only: byte_of_word byte_at bit.conj_disj_distrib)
qed

lemma bytes32:
  "(ucast (ucast v :: byte) :: 32 word) OR push_bit 8 (ucast (ucast (drop_bit 8 v) :: byte))
     OR push_bit 16 (ucast (ucast (drop_bit 16 v) :: byte))
     OR push_bit 24 (ucast (ucast (drop_bit 24 v) :: byte)) = v"
proof -
  have m: "(mask 8 :: 32 word) OR push_bit 8 (mask 8) OR push_bit 16 (mask 8)
             OR push_bit 24 (mask 8) = - 1"
    by (simp add: mask_eq_exp_minus_1 push_bit_eq_mult)
  have "v AND (mask 8 OR push_bit 8 (mask 8) OR push_bit 16 (mask 8)
                 OR push_bit 24 (mask 8)) = v"
    by (simp only: m bit.conj_one_right)
  then show ?thesis
    by (simp only: byte_of_word byte_at bit.conj_disj_distrib)
qed

lemma bytes64:
  "(ucast (ucast v :: byte) :: 64 word) OR push_bit 8 (ucast (ucast (drop_bit 8 v) :: byte))
     OR push_bit 16 (ucast (ucast (drop_bit 16 v) :: byte))
     OR push_bit 24 (ucast (ucast (drop_bit 24 v) :: byte))
     OR push_bit 32 (ucast (ucast (drop_bit 32 v) :: byte))
     OR push_bit 40 (ucast (ucast (drop_bit 40 v) :: byte))
     OR push_bit 48 (ucast (ucast (drop_bit 48 v) :: byte))
     OR push_bit 56 (ucast (ucast (drop_bit 56 v) :: byte)) = v"
proof -
  have m: "(mask 8 :: 64 word) OR push_bit 8 (mask 8) OR push_bit 16 (mask 8)
             OR push_bit 24 (mask 8) OR push_bit 32 (mask 8) OR push_bit 40 (mask 8)
             OR push_bit 48 (mask 8) OR push_bit 56 (mask 8) = - 1"
    by (simp add: mask_eq_exp_minus_1 push_bit_eq_mult)
  have "v AND (mask 8 OR push_bit 8 (mask 8) OR push_bit 16 (mask 8)
                 OR push_bit 24 (mask 8) OR push_bit 32 (mask 8) OR push_bit 40 (mask 8)
                 OR push_bit 48 (mask 8) OR push_bit 56 (mask 8)) = v"
    by (simp only: m bit.conj_one_right)
  then show ?thesis
    by (simp only: byte_of_word byte_at bit.conj_disj_distrib)
qed

lemma window_nonempty: "k \<le> length b \<Longrightarrow> 0 < k \<Longrightarrow> b \<noteq> []"
  by auto

lemma roundtrip_Uint16LE: "2 \<le> length b \<Longrightarrow> roundtrip PutUint16LE GetUint16LE b v"
  using window_nonempty [of 2 b]
  by (simp add: roundtrip_def PutUint16LE_def GetUint16LE_def LittleEndian_PutUint16_def
      LittleEndian_Uint16_def bytes16)

lemma roundtrip_Uint16BE: "2 \<le> length b \<Longrightarrow> roundtrip PutUint16BE GetUint16BE b v"
  using window_nonempty [of 2 b]
  by (simp add: roundtrip_def PutUint16BE_def GetUint16BE_def BigEndian_PutUint16_def
      BigEndian_Uint16_def bytes16)

lemma roundtrip_Uint32LE: "4 \<le> length b \<Longrightarrow> roundtrip PutUint32LE GetUint32LE b v"
  using window_nonempty [of 4 b]
  by (simp add: roundtrip_def PutUint32LE_def GetUint32LE_def LittleEndian_PutUint32_def
      LittleEndian_Uint32_def bytes32)

lemma roundtrip_Uint32BE: "4 \<le> length b \<Longrightarrow> roundtrip PutUint32BE GetUint32BE b v"
  using window_nonempty [of 4 b]
  by (simp add: roundtrip_def PutUint32BE_def GetUint32BE_def BigEndian_PutUint32_def
      BigEndian_Uint32_def bytes32)

lemma roundtrip_Uint64LE: "8 \<le> length b \<Longrightarrow> roundtrip PutUint64LE GetUint64LE b v"
  using window_nonempty [of 8 b]
  by (simp add: roundtrip_def PutUint64LE_def GetUint64LE_def LittleEndian_PutUint64_def
      LittleEndian_Uint64_def bytes64)

lemma roundtrip_Uint64BE: "8 \<le> length b \<Longrightarrow> roundtrip PutUint64BE GetUint64BE b v"
  using window_nonempty [of 8 b]
  by (simp add: roundtrip_def PutUint64BE_def GetUint64BE_def BigEndian_PutUint64_def
      BigEndian_Uint64_def bytes64)

lemma roundtrip_Float32:
  assumes "roundtrip put get b (Float32bits v)"
  shows "roundtrip (\<lambda>b v. put b (Float32bits v)) (\<lambda>b. map_sum id Float32frombits (get b)) b v"
  using assms by (auto simp: roundtrip_def split: sum.splits)

lemma roundtrip_Float64:
  assumes "roundtrip put get b (Float64bits v)"
  shows "roundtrip (\<lambda>b v. put b (Float64bits v)) (\<lambda>b. map_sum id Float64frombits (get b)) b v"
  using assms by (auto simp: roundtrip_def split: sum.splits)

lemma PutUint16LE_bytes: "PutUint16LE [0, 0] 0x0102 = Inr [0x02, 0x01]"
  by (simp add: PutUint16LE_def LittleEndian_PutUint16_def)

lemma GetUint32BE_bytes: "GetUint32BE [0x01, 0x02, 0x03, 0x04] = Inr 0x01020304"
  by (simp add: GetUint32BE_def BigEndian_Uint32_def)


section \<open>Reader: lemmas on \<open>fill\<close> and \<open>Peek\<close>\<close>

lemma length_copy_at [simp]: "length (copy_at dst off src) = length dst"
  by (auto simp: copy_at_def)

lemma fill_loop_length: "fill_loop i f b = Inr b' \<Longrightarrow> length (buf b') = length (buf b)"
proof (induction i arbitrary: b)
  case 0
  then show ?case by auto
next
  case (Suc i)
  then show ?case
    by (fastforce simp: Let_def split: sum.splits prod.splits if_splits)
qed

lemma fill_length: "fill f b = Inr b' \<Longrightarrow> length (buf b') = length (buf b)"
  by (auto simp: fill_def split: sum.splits if_splits dest!: fill_loop_length)

lemma Peek_loop_length: "Peek_loop f b n = Inr b' \<Longrightarrow> length (buf b') = length (buf b)"
proof (induction f b n rule: Peek_loop.induct)
  case (1 f b n)
  show ?case
  proof (cases "w b - r b < n \<and> err b = None")
    case True
    with "1.prems" obtain b1 where b1: "fill f b = Inr b1" and "Peek_loop f b1 n = Inr b'"
      by (subst (asm) Peek_loop.simps) (auto split: sum.splits)
    with "1.IH" True fill_length [OF b1] show ?thesis by simp
  next
    case False
    with "1.prems" show ?thesis by (subst (asm) Peek_loop.simps) auto
  qed
qed

lemma Peek_loop_exit: "Peek_loop f b n = Inr b' \<Longrightarrow> \<not> (w b' - r b' < n \<and> err b' = None)"
proof (induction f b n rule: Peek_loop.induct)
  case (1 f b n)
  show ?case
  proof (cases "w b - r b < n \<and> err b = None")
    case True
    with "1.prems" obtain b1 where b1: "fill f b = Inr b1" and "Peek_loop f b1 n = Inr b'"
      by (subst (asm) Peek_loop.simps) (auto split: sum.splits)
    with "1.IH" True show ?thesis by simp
  next
    case False
    with "1.prems" show ?thesis by (subst (asm) Peek_loop.simps) auto
  qed
qed

lemma Peek_loop_done: "\<not> (w b - r b < n \<and> err b = None) \<Longrightarrow> Peek_loop f b n = Inr b"
  by (subst Peek_loop.simps) auto

lemma Peek_success:
  assumes "Peek f b n = Inr ((d, None), b1)"
  shows "0 \<le> n" and "n \<le> int (length (buf b1))" and "n \<le> w b1 - r b1"
    and "subslice (buf b1) (r b1) (r b1 + n) = Inr d"
proof -
  from assms have n: "0 \<le> n" "n \<le> int (length (buf b))"
    by (auto simp: Peek_def split: if_splits)
  with assms obtain b' where loop: "Peek_loop f b n = Inr b'"
    by (auto simp: Peek_def split: sum.splits)
  with assms n have *: "n \<le> w b' - r b'" "b1 = b'" "subslice (buf b') (r b') (r b' + n) = Inr d"
    by (auto simp: Peek_def Let_def readErr_def split: sum.splits if_splits)
  show "0 \<le> n" by fact
  show "n \<le> int (length (buf b1))" using n Peek_loop_length [OF loop] * by simp
  show "n \<le> w b1 - r b1" using * by simp
  show "subslice (buf b1) (r b1) (r b1 + n) = Inr d" using * by simp
qed


















section \<open>Reader: lemmas on \<open>ReadBytes\<close>\<close>









section \<open>Fixed-width helpers: lemmas\<close>

lemma popDecode_sentinel:
  "popDecode f b k get zero = Inr ((v, Some e), b') \<Longrightarrow> v = zero"
  by (auto simp: popDecode_def split: sum.splits prod.splits if_splits)

lemma asSigned_sentinel:
  "asSigned res = Inr ((v, Some e), b') \<Longrightarrow> v = - 1 \<and> sint v = - 1"
  by (auto simp: asSigned_def split: sum.splits prod.splits if_splits)

lemma peekEncode_sentinel:
  "peekEncode g c k put v failed = Some (Inr ((n, Some e), c')) \<Longrightarrow> n = failed"
  by (auto simp: peekEncode_def split: option.splits sum.splits prod.splits if_splits)


section \<open>Writer: lemmas on \<open>flush\<close> and the stored error\<close>




text \<open>
  \<open>Writer.Peek\<close> always returns: its loop runs \<open>flush\<close> at most once, since \<open>flush\<close>
  either empties the buffer or stores an error.
\<close>

lemma Writer_Peek_loop_returns:
  assumes "n \<le> int (length (wbuf b))"
  shows "\<exists>res. Writer_Peek_loop g b n = Some res"
proof (cases "Available b < n \<and> werr b = None")
  case False
  then show ?thesis by (subst Writer_Peek_loop.simps) auto
next
  case True
  show ?thesis
  proof (cases "flush g b")
    case (Inl x)
    with True show ?thesis by (subst Writer_Peek_loop.simps) auto
  next
    case (Inr eb)
    obtain e b' where eb: "eb = (e, b')" by (cases eb)
    from True assms have "wn b \<noteq> 0" by (auto simp: Available_def)
    with True Inr eb have "werr b' \<noteq> None \<or> (wn b' = 0 \<and> wbuf b' = wbuf b)"
      by (auto simp: flush_def Let_def split: sum.splits prod.splits if_splits)
    with assms have "\<not> (Available b' < n \<and> werr b' = None)"
      by (auto simp: Available_def)
    then have "Writer_Peek_loop g b' n = Some (Inr b')"
      by (subst Writer_Peek_loop.simps) auto
    with True Inr eb show ?thesis by (subst Writer_Peek_loop.simps) auto
  qed
qed

lemma Writer_Peek_returns: "\<exists>res. Writer_Peek g b n = Some res"
proof (cases "n < 0 \<or> int (length (wbuf b)) < n")
  case True
  then show ?thesis by (auto simp: Writer_Peek_def)
next
  case False
  then obtain res where "Writer_Peek_loop g b n = Some res"
    using Writer_Peek_loop_returns [of n b g] by auto
  with False show ?thesis
    by (auto simp: Writer_Peek_def split: sum.splits)
qed


section \<open>Claims\<close>










text \<open>
  C3 as stated fails: with an empty 16-byte buffer, a destination of 16 bytes and a
  stream whose \<open>Read\<close> returns \<open>(0, nil)\<close>, \<open>Read\<close> returns the count 0 and the error
  \<open>nil\<close>.
\<close>

theorem Read_zero_nil_counterexample:
  "0 < length (replicate 16 (0 :: byte)) \<and>
   Read scripted (NewReaderSize idle_once 16) (replicate 16 0) =
     Inr ((0, replicate 16 0, None),
          \<lparr>buf = replicate 16 0, rd = [], r = 0, w = 0, err = None\<rparr>)"
  by code_simp

text \<open>
  C3, as amended. \<open>Read(p)\<close> with a destination of non-zero length returns a positive
  count or a non-nil error, except on the bypass path (empty buffer, no pending error,
  destination at least as large as the buffer) when the single direct read of the
  stream itself returns zero bytes and no error: that result is passed through.
\<close>

theorem Read_progress:
  assumes "Read f b p = Inr ((n, p', e), b')" and "0 < length p"
    and "\<not> (directRead b p \<and> fst (fst (f (rd b) (length p))) = 0
             \<and> snd (snd (fst (f (rd b) (length p)))) = None)"
  shows "0 < n \<or> e \<noteq> None"
proof -
  have copy: "0 < n \<or> e \<noteq> None"
    if "Read_copy c p = Inr ((n, p', e), b')" and "r c \<noteq> w c" for c
    using that assms(2) by (auto simp: Read_copy_def subslice_def Let_def split: if_splits)
  show ?thesis
  proof (cases "r b = w b")
    case False
    with assms have "Read_copy b p = Inr ((n, p', e), b')"
      by (simp add: Read_def)
    then show ?thesis using False by (rule copy)
  next
    case True
    note empty = this
    show ?thesis
    proof (cases "err b = None")
      case False
      with assms empty show ?thesis by (auto simp: Read_def readErr_def)
    next
      case True
      note noerr = this
      show ?thesis
      proof (cases "length (buf b) \<le> length p")
        case True
        with assms empty noerr show ?thesis
          by (auto simp: Read_def readErr_def directRead_def split: prod.splits if_splits)
      next
        case False
        with assms empty noerr obtain b1 where b1: "fill f b = Inr b1"
          by (auto simp: Read_def split: sum.splits)
        show ?thesis
        proof (cases "r b1 = w b1")
          case True
          with fill_progress [OF b1] have "err b1 \<noteq> None"
            by (auto simp: Buffered_def empty)
          with assms empty noerr False b1 True show ?thesis
            by (auto simp: Read_def readErr_def)
        next
          case ne: False
          with assms empty noerr False b1 have "Read_copy b1 p = Inr ((n, p', e), b')"
            by (auto simp: Read_def)
          then show ?thesis using ne by (rule copy)
        qed
      qed
    qed
  qed
qed

theorem Read_progress_witness:
  "Read scripted (NewReaderSize lazy 16) (replicate 4 0) =
     Inr ((2, [5, 6, 0, 0], None),
          \<lparr>buf = [5, 6] @ replicate 14 0, rd = [], r = 2, w = 2, err = None\<rparr>) \<and>
   0 < length (replicate 4 (0 :: byte)) \<and>
   \<not> directRead (NewReaderSize lazy 16) (replicate 4 0) \<and>
   (0 < (2 :: int) \<or> (None :: error option) \<noteq> None)"
proof -
  have rd: "Read scripted (NewReaderSize lazy 16) (replicate 4 0) =
     Inr ((2, [5, 6, 0, 0], None),
          \<lparr>buf = [5, 6] @ replicate 14 0, rd = [], r = 2, w = 2, err = None\<rparr>)"
    by code_simp
  have nd: "\<not> directRead (NewReaderSize lazy 16) (replicate 4 0)"
    by (simp add: directRead_def NewReaderSize_def minReadBufferSize_def reset_def)
  show ?thesis
    using rd nd
      Read_progress [of scripted "NewReaderSize lazy 16"
        "replicate 4 0" 2 "[5, 6, 0, 0]" None
        "\<lparr>buf = [5, 6] @ replicate 14 0, rd = [], r = 2, w = 2, err = None\<rparr>"]
    by simp
qed


text \<open>
  C4. For every width (16, 32, 64) and order (LE, BE), decoding the encoding of a value
  gives the value back, for every unsigned value of that width (so also 0 and the
  maximum) and every window long enough to hold it; for the float variants the IEEE-754
  bit pattern comes back unchanged, whatever it encodes (infinities and NaNs included).
\<close>

theorem codec_roundtrip:
  "(2 \<le> length b \<longrightarrow>
      roundtrip PutUint16LE GetUint16LE b v16 \<and> roundtrip PutUint16BE GetUint16BE b v16) \<and>
   (4 \<le> length b \<longrightarrow>
      roundtrip PutUint32LE GetUint32LE b v32 \<and> roundtrip PutUint32BE GetUint32BE b v32 \<and>
      roundtrip PutFloat32LE GetFloat32LE b f32 \<and> roundtrip PutFloat32BE GetFloat32BE b f32) \<and>
   (8 \<le> length b \<longrightarrow>
      roundtrip PutUint64LE GetUint64LE b v64 \<and> roundtrip PutUint64BE GetUint64BE b v64 \<and>
      roundtrip PutFloat64LE GetFloat64LE b f64 \<and> roundtrip PutFloat64BE GetFloat64BE b f64)"
proof (intro conjI impI)
  assume "2 \<le> length b"
  then show "roundtrip PutUint16LE GetUint16LE b v16" "roundtrip PutUint16BE GetUint16BE b v16"
    by (rule roundtrip_Uint16LE, rule roundtrip_Uint16BE)
next
  assume len: "4 \<le> length b"
  then show "roundtrip PutUint32LE GetUint32LE b v32" "roundtrip PutUint32BE GetUint32BE b v32"
    by (rule roundtrip_Uint32LE, rule roundtrip_Uint32BE)
  have "PutFloat32LE = (\<lambda>b v. PutUint32LE b (Float32bits v))"
    "GetFloat32LE = (\<lambda>b. map_sum id Float32frombits (GetUint32LE b))"
    "PutFloat32BE = (\<lambda>b v. PutUint32BE b (Float32bits v))"
    "GetFloat32BE = (\<lambda>b. map_sum id Float32frombits (GetUint32BE b))"
    by (simp_all add: fun_eq_iff PutFloat32LE_def GetFloat32LE_def PutFloat32BE_def
        GetFloat32BE_def)
  then show "roundtrip PutFloat32LE GetFloat32LE b f32" "roundtrip PutFloat32BE GetFloat32BE b f32"
    using roundtrip_Float32 [OF roundtrip_Uint32LE [OF len]]
      roundtrip_Float32 [OF roundtrip_Uint32BE [OF len]]
    by simp_all
next
  assume len: "8 \<le> length b"
  then show "roundtrip PutUint64LE GetUint64LE b v64" "roundtrip PutUint64BE GetUint64BE b v64"
    by (rule roundtrip_Uint64LE, rule roundtrip_Uint64BE)
  have "PutFloat64LE = (\<lambda>b v. PutUint64LE b (Float64bits v))"
    "GetFloat64LE = (\<lambda>b. map_sum id Float64frombits (GetUint64LE b))"
    "PutFloat64BE = (\<lambda>b v. PutUint64BE b (Float64bits v))"
    "GetFloat64BE = (\<lambda>b. map_sum id Float64frombits (GetUint64BE b))"
    by (simp_all add: fun_eq_iff PutFloat64LE_def GetFloat64LE_def PutFloat64BE_def
        GetFloat64BE_def)
  then show "roundtrip PutFloat64LE GetFloat64LE b f64" "roundtrip PutFloat64BE GetFloat64BE b f64"
    using roundtrip_Float64 [OF roundtrip_Uint64LE [OF len]]
      roundtrip_Float64 [OF roundtrip_Uint64BE [OF len]]
    by simp_all
qed

text \<open>
  The round trip at the boundary values: the maximum of each unsigned width, positive
  infinity as a \<open>float32\<close> (bits \<open>0x7F800000\<close>) and negative infinity as a \<open>float64\<close>
  (bits \<open>0xFFF0000000000000\<close>), on a zeroed window of 8 bytes.
\<close>

theorem codec_roundtrip_witness:
  "8 \<le> length (replicate 8 (0 :: byte)) \<and>
   roundtrip PutUint16LE GetUint16LE (replicate 8 0) 0xFFFF \<and>
   roundtrip PutUint16BE GetUint16BE (replicate 8 0) 0xFFFF \<and>
   roundtrip PutUint32LE GetUint32LE (replicate 8 0) 0xFFFFFFFF \<and>
   roundtrip PutUint32BE GetUint32BE (replicate 8 0) 0xFFFFFFFF \<and>
   roundtrip PutFloat32LE GetFloat32LE (replicate 8 0) (Float32frombits 0x7F800000) \<and>
   roundtrip PutFloat32BE GetFloat32BE (replicate 8 0) (Float32frombits 0x7F800000) \<and>
   roundtrip PutUint64LE GetUint64LE (replicate 8 0) 0xFFFFFFFFFFFFFFFF \<and>
   roundtrip PutUint64BE GetUint64BE (replicate 8 0) 0xFFFFFFFFFFFFFFFF \<and>
   roundtrip PutFloat64LE GetFloat64LE (replicate 8 0) (Float64frombits 0xFFF0000000000000) \<and>
   roundtrip PutFloat64BE GetFloat64BE (replicate 8 0) (Float64frombits 0xFFF0000000000000)"
  using codec_roundtrip [of "replicate 8 0" "0xFFFF" "0xFFFFFFFF" "Float32frombits 0x7F800000"
      "0xFFFFFFFFFFFFFFFF" "Float64frombits 0xFFF0000000000000"]
  by simp







text \<open>
  C7. For \<open>Reader.Peek\<close> and \<open>Writer.Peek\<close> alike: \<open>Peek(n)\<close> with \<open>n < 0\<close> returns
  \<open>ErrNegativeCount\<close>, and \<open>Peek(n)\<close> with \<open>n\<close> above the buffer capacity returns
  \<open>ErrBufferFull\<close>; in both cases the Reader or Writer is left exactly as it was, the
  state of the wrapped stream included, whatever the stream would do: the stream is not
  called.
\<close>

theorem Peek_bad_count:
  "(n < 0 \<longrightarrow>
      Peek f b n = Inr (([], Some ErrNegativeCount), b) \<and>
      Writer_Peek g c n = Some (Inr ((None, Some ErrNegativeCount), c))) \<and>
   (int (length (buf b)) < n \<longrightarrow> Peek f b n = Inr (([], Some ErrBufferFull), b)) \<and>
   (int (length (wbuf c)) < n \<longrightarrow> Writer_Peek g c n = Some (Inr ((None, Some ErrBufferFull), c)))"
  by (simp add: Peek_def Writer_Peek_def)

text \<open>
  The witness: a Reader and a Writer of capacity 4 (the Writer holding 2 pending bytes),
  asked for \<open>-1\<close> and for 5 bytes.
\<close>

theorem Peek_bad_count_witness:
  "(- 1 :: int) < 0 \<and>
   Peek scripted small_reader (- 1) = Inr (([], Some ErrNegativeCount), small_reader) \<and>
   Writer_Peek scripted_sink small_writer (- 1)
     = Some (Inr ((None, Some ErrNegativeCount), small_writer)) \<and>
   int (length (buf small_reader)) < 5 \<and>
   Peek scripted small_reader 5 = Inr (([], Some ErrBufferFull), small_reader) \<and>
   int (length (wbuf small_writer)) < 5 \<and>
   Writer_Peek scripted_sink small_writer 5
     = Some (Inr ((None, Some ErrBufferFull), small_writer))"
  using Peek_bad_count [of "- 1" scripted small_reader scripted_sink small_writer]
    Peek_bad_count [of 5 scripted small_reader scripted_sink small_writer]
  by (simp add: small_reader_def small_writer_def ResetBuffer_def NewWriterSize_def reset_def)


text \<open>
  C8. \<open>Pop(n)\<close> is \<open>Peek(n)\<close> followed, on success only, by advancing the read cursor by
  \<open>n\<close>. When \<open>Peek(n)\<close> succeeds (so \<open>0 \<le> n \<le> capacity\<close> and \<open>n\<close> bytes are available),
  a \<open>Pop(n)\<close> right after it returns the same \<open>n\<close> bytes and advances the read cursor
  by exactly \<open>n\<close>, without calling the stream; when \<open>Peek(n)\<close> fails, \<open>Pop(n)\<close> returns
  the same error and does not advance.
\<close>

theorem Peek_then_Pop:
  "(Peek f b n = Inr ((d, None), b1) \<longrightarrow>
      Pop f b n = Inr ((d, None), b1\<lparr>r := r b1 + n\<rparr>) \<and>
      Pop f b1 n = Inr ((d, None), b1\<lparr>r := r b1 + n\<rparr>) \<and>
      Peek f b1 n = Inr ((d, None), b1) \<and>
      int (length d) = n \<and> 0 \<le> n \<and> n \<le> int (length (buf b1)) \<and>
      Buffered (b1\<lparr>r := r b1 + n\<rparr>) = Buffered b1 - n) \<and>
   (Peek f b n = Inr ((d, Some e), b1) \<longrightarrow> Pop f b n = Inr (([], Some e), b1))"
proof (intro conjI impI)
  assume ok: "Peek f b n = Inr ((d, None), b1)"
  note s = Peek_success [OF ok]
  show "Pop f b n = Inr ((d, None), b1\<lparr>r := r b1 + n\<rparr>)"
    using ok by (simp add: Pop_def)
  have "Peek_loop f b1 n = Inr b1"
    using s(3) by (intro Peek_loop_done) simp
  then show again: "Peek f b1 n = Inr ((d, None), b1)"
    using s by (simp add: Peek_def Let_def)
  then show "Pop f b1 n = Inr ((d, None), b1\<lparr>r := r b1 + n\<rparr>)"
    by (simp add: Pop_def)
  show "int (length d) = n"
    using s(1,4) by (auto simp: subslice_def split: if_splits)
  show "0 \<le> n" "n \<le> int (length (buf b1))" by fact+
  show "Buffered (b1\<lparr>r := r b1 + n\<rparr>) = Buffered b1 - n"
    by (simp add: Buffered_def)
next
  assume "Peek f b n = Inr ((d, Some e), b1)"
  then show "Pop f b n = Inr (([], Some e), b1)"
    by (simp add: Pop_def)
qed

text \<open>
  The witness: on a stream that delivers the bytes 1, 2, 3, 4, \<open>Peek(3)\<close> and then
  \<open>Pop(3)\<close> both return 1, 2, 3 and the cursor moves from 0 to 3; on a stream at its
  end, both fail with \<open>EOF\<close> and the cursor stays.
\<close>

theorem Peek_then_Pop_witness:
  "Peek scripted (NewReaderSize four_bytes 16) 3 =
     Inr (([1, 2, 3], None),
          \<lparr>buf = [1, 2, 3, 4] @ replicate 12 0, rd = [], r = 0, w = 4, err = None\<rparr>) \<and>
   Pop scripted \<lparr>buf = [1, 2, 3, 4] @ replicate 12 0, rd = [], r = 0, w = 4, err = None\<rparr> 3 =
     Inr (([1, 2, 3], None),
          \<lparr>buf = [1, 2, 3, 4] @ replicate 12 0, rd = [], r = 3, w = 4, err = None\<rparr>) \<and>
   Peek scripted (NewReaderSize [] 16) 3 =
     Inr (([], Some EOF), \<lparr>buf = replicate 16 0, rd = [], r = 0, w = 0, err = None\<rparr>) \<and>
   Pop scripted (NewReaderSize [] 16) 3 =
     Inr (([], Some EOF), \<lparr>buf = replicate 16 0, rd = [], r = 0, w = 0, err = None\<rparr>)"
proof -
  have p1: "Peek scripted (NewReaderSize four_bytes 16) 3 =
     Inr (([1, 2, 3], None),
          \<lparr>buf = [1, 2, 3, 4] @ replicate 12 0, rd = [], r = 0, w = 4, err = None\<rparr>)"
    by code_simp
  have p2: "Peek scripted (NewReaderSize [] 16) 3 =
     Inr (([], Some EOF), \<lparr>buf = replicate 16 0, rd = [], r = 0, w = 0, err = None\<rparr>)"
    by code_simp
  show ?thesis
    using p1 p2
      Peek_then_Pop [of scripted "NewReaderSize four_bytes 16" 3 "[1, 2, 3]"
        "\<lparr>buf = [1, 2, 3, 4] @ replicate 12 0, rd = [], r = 0, w = 4, err = None\<rparr>"]
      Peek_then_Pop [of scripted "NewReaderSize [] 16" 3 "[]"
        "\<lparr>buf = replicate 16 0, rd = [], r = 0, w = 0, err = None\<rparr>" EOF]
    by simp
qed


text \<open>
  C9. On failure the fixed-width read helpers are asymmetric and the write helpers
  uniform: whenever an unsigned or float read helper returns an error, the value it
  returns is zero (for a float, the float whose bits are all zero); whenever a signed
  read helper returns an error, the value is \<open>-1\<close>; whenever a fixed-width write helper
  returns an error, the count it returns is \<open>-1\<close>.
\<close>

theorem failure_sentinels:
  "(ReadUint8 f b = Inr ((ua, Some e), b') \<longrightarrow> ua = 0) \<and>
   (ReadUint16BE f b = Inr ((ub, Some e), b') \<longrightarrow> ub = 0) \<and>
   (ReadUint16LE f b = Inr ((ub, Some e), b') \<longrightarrow> ub = 0) \<and>
   (ReadUint32BE f b = Inr ((uc, Some e), b') \<longrightarrow> uc = 0) \<and>
   (ReadUint32LE f b = Inr ((uc, Some e), b') \<longrightarrow> uc = 0) \<and>
   (ReadUint64BE f b = Inr ((ud, Some e), b') \<longrightarrow> ud = 0) \<and>
   (ReadUint64LE f b = Inr ((ud, Some e), b') \<longrightarrow> ud = 0) \<and>
   (ReadFloat32BE f b = Inr ((fc, Some e), b') \<longrightarrow> fc = Float32frombits 0) \<and>
   (ReadFloat32LE f b = Inr ((fc, Some e), b') \<longrightarrow> fc = Float32frombits 0) \<and>
   (ReadFloat64BE f b = Inr ((fd, Some e), b') \<longrightarrow> fd = Float64frombits 0) \<and>
   (ReadFloat64LE f b = Inr ((fd, Some e), b') \<longrightarrow> fd = Float64frombits 0) \<and>
   (ReadInt8 f b = Inr ((sa, Some e), b') \<longrightarrow> sa = - 1 \<and> sint sa = - 1) \<and>
   (ReadInt16BE f b = Inr ((sb, Some e), b') \<longrightarrow> sb = - 1 \<and> sint sb = - 1) \<and>
   (ReadInt16LE f b = Inr ((sb, Some e), b') \<longrightarrow> sb = - 1 \<and> sint sb = - 1) \<and>
   (ReadInt32BE f b = Inr ((sc, Some e), b') \<longrightarrow> sc = - 1 \<and> sint sc = - 1) \<and>
   (ReadInt32LE f b = Inr ((sc, Some e), b') \<longrightarrow> sc = - 1 \<and> sint sc = - 1) \<and>
   (ReadInt64BE f b = Inr ((sd, Some e), b') \<longrightarrow> sd = - 1 \<and> sint sd = - 1) \<and>
   (ReadInt64LE f b = Inr ((sd, Some e), b') \<longrightarrow> sd = - 1 \<and> sint sd = - 1) \<and>
   (WriteUint8 g c va = Some (Inr ((k, Some x), c')) \<longrightarrow> k = - 1) \<and>
   (WriteUint16BE g c vb = Some (Inr ((k, Some x), c')) \<longrightarrow> k = - 1) \<and>
   (WriteUint16LE g c vb = Some (Inr ((k, Some x), c')) \<longrightarrow> k = - 1) \<and>
   (WriteUint32BE g c vc = Some (Inr ((k, Some x), c')) \<longrightarrow> k = - 1) \<and>
   (WriteUint32LE g c vc = Some (Inr ((k, Some x), c')) \<longrightarrow> k = - 1) \<and>
   (WriteUint64BE g c vd = Some (Inr ((k, Some x), c')) \<longrightarrow> k = - 1) \<and>
   (WriteUint64LE g c vd = Some (Inr ((k, Some x), c')) \<longrightarrow> k = - 1) \<and>
   (WriteFloat32BE g c xc = Some (Inr ((k, Some x), c')) \<longrightarrow> k = - 1) \<and>
   (WriteFloat32LE g c xc = Some (Inr ((k, Some x), c')) \<longrightarrow> k = - 1) \<and>
   (WriteFloat64BE g c xd = Some (Inr ((k, Some x), c')) \<longrightarrow> k = - 1) \<and>
   (WriteFloat64LE g c xd = Some (Inr ((k, Some x), c')) \<longrightarrow> k = - 1) \<and>
   (WriteInt8 g c va = Some (Inr ((k, Some x), c')) \<longrightarrow> k = - 1) \<and>
   (WriteInt16BE g c vb = Some (Inr ((k, Some x), c')) \<longrightarrow> k = - 1) \<and>
   (WriteInt16LE g c vb = Some (Inr ((k, Some x), c')) \<longrightarrow> k = - 1) \<and>
   (WriteInt32BE g c vc = Some (Inr ((k, Some x), c')) \<longrightarrow> k = - 1) \<and>
   (WriteInt32LE g c vc = Some (Inr ((k, Some x), c')) \<longrightarrow> k = - 1) \<and>
   (WriteInt64BE g c vd = Some (Inr ((k, Some x), c')) \<longrightarrow> k = - 1) \<and>
   (WriteInt64LE g c vd = Some (Inr ((k, Some x), c')) \<longrightarrow> k = - 1) \<and>
   (WriteUintBE g c vd = Some (Inr ((k, Some x), c')) \<longrightarrow> k = - 1) \<and>
   (WriteUintLE g c vd = Some (Inr ((k, Some x), c')) \<longrightarrow> k = - 1)"
proof -
  have unsigned0: "ReadUint8 f b = Inr ((ua, Some e), b') \<longrightarrow> ua = 0"
    by (auto simp: ReadUint8_def dest: popDecode_sentinel)
  have unsigned1: "ReadUint16BE f b = Inr ((ub, Some e), b') \<longrightarrow> ub = 0"
    by (auto simp: ReadUint16BE_def dest: popDecode_sentinel)
  have unsigned2: "ReadUint16LE f b = Inr ((ub, Some e), b') \<longrightarrow> ub = 0"
    by (auto simp: ReadUint16LE_def dest: popDecode_sentinel)
  have unsigned3: "ReadUint32BE f b = Inr ((uc, Some e), b') \<longrightarrow> uc = 0"
    by (auto simp: ReadUint32BE_def dest: popDecode_sentinel)
  have unsigned4: "ReadUint32LE f b = Inr ((uc, Some e), b') \<longrightarrow> uc = 0"
    by (auto simp: ReadUint32LE_def dest: popDecode_sentinel)
  have unsigned5: "ReadUint64BE f b = Inr ((ud, Some e), b') \<longrightarrow> ud = 0"
    by (auto simp: ReadUint64BE_def dest: popDecode_sentinel)
  have unsigned6: "ReadUint64LE f b = Inr ((ud, Some e), b') \<longrightarrow> ud = 0"
    by (auto simp: ReadUint64LE_def dest: popDecode_sentinel)
  have unsigned7: "ReadFloat32BE f b = Inr ((fc, Some e), b') \<longrightarrow> fc = Float32frombits 0"
    by (auto simp: ReadFloat32BE_def dest: popDecode_sentinel)
  have unsigned8: "ReadFloat32LE f b = Inr ((fc, Some e), b') \<longrightarrow> fc = Float32frombits 0"
    by (auto simp: ReadFloat32LE_def dest: popDecode_sentinel)
  have unsigned9: "ReadFloat64BE f b = Inr ((fd, Some e), b') \<longrightarrow> fd = Float64frombits 0"
    by (auto simp: ReadFloat64BE_def dest: popDecode_sentinel)
  have unsigned10: "ReadFloat64LE f b = Inr ((fd, Some e), b') \<longrightarrow> fd = Float64frombits 0"
    by (auto simp: ReadFloat64LE_def dest: popDecode_sentinel)
  have signed0: "ReadInt8 f b = Inr ((sa, Some e), b') \<longrightarrow> sa = - 1 \<and> sint sa = - 1"
    by (auto simp: ReadInt8_def dest: asSigned_sentinel)
  have signed1: "ReadInt16BE f b = Inr ((sb, Some e), b') \<longrightarrow> sb = - 1 \<and> sint sb = - 1"
    by (auto simp: ReadInt16BE_def dest: asSigned_sentinel)
  have signed2: "ReadInt16LE f b = Inr ((sb, Some e), b') \<longrightarrow> sb = - 1 \<and> sint sb = - 1"
    by (auto simp: ReadInt16LE_def dest: asSigned_sentinel)
  have signed3: "ReadInt32BE f b = Inr ((sc, Some e), b') \<longrightarrow> sc = - 1 \<and> sint sc = - 1"
    by (auto simp: ReadInt32BE_def dest: asSigned_sentinel)
  have signed4: "ReadInt32LE f b = Inr ((sc, Some e), b') \<longrightarrow> sc = - 1 \<and> sint sc = - 1"
    by (auto simp: ReadInt32LE_def dest: asSigned_sentinel)
  have signed5: "ReadInt64BE f b = Inr ((sd, Some e), b') \<longrightarrow> sd = - 1 \<and> sint sd = - 1"
    by (auto simp: ReadInt64BE_def dest: asSigned_sentinel)
  have signed6: "ReadInt64LE f b = Inr ((sd, Some e), b') \<longrightarrow> sd = - 1 \<and> sint sd = - 1"
    by (auto simp: ReadInt64LE_def dest: asSigned_sentinel)
  have write0: "WriteUint8 g c va = Some (Inr ((k, Some x), c')) \<longrightarrow> k = - 1"
    by (auto simp: WriteUint8_def WriteUint16BE_def WriteUint16LE_def WriteUint32BE_def WriteUint32LE_def WriteUint64BE_def WriteUint64LE_def WriteFloat32BE_def WriteFloat32LE_def WriteFloat64BE_def WriteFloat64LE_def WriteInt8_def WriteInt16BE_def WriteInt16LE_def WriteInt32BE_def WriteInt32LE_def WriteInt64BE_def WriteInt64LE_def WriteUintBE_def WriteUintLE_def dest: peekEncode_sentinel)
  have write1: "WriteUint16BE g c vb = Some (Inr ((k, Some x), c')) \<longrightarrow> k = - 1"
    by (auto simp: WriteUint8_def WriteUint16BE_def WriteUint16LE_def WriteUint32BE_def WriteUint32LE_def WriteUint64BE_def WriteUint64LE_def WriteFloat32BE_def WriteFloat32LE_def WriteFloat64BE_def WriteFloat64LE_def WriteInt8_def WriteInt16BE_def WriteInt16LE_def WriteInt32BE_def WriteInt32LE_def WriteInt64BE_def WriteInt64LE_def WriteUintBE_def WriteUintLE_def dest: peekEncode_sentinel)
  have write2: "WriteUint16LE g c vb = Some (Inr ((k, Some x), c')) \<longrightarrow> k = - 1"
    by (auto simp: WriteUint8_def WriteUint16BE_def WriteUint16LE_def WriteUint32BE_def WriteUint32LE_def WriteUint64BE_def WriteUint64LE_def WriteFloat32BE_def WriteFloat32LE_def WriteFloat64BE_def WriteFloat64LE_def WriteInt8_def WriteInt16BE_def WriteInt16LE_def WriteInt32BE_def WriteInt32LE_def WriteInt64BE_def WriteInt64LE_def WriteUintBE_def WriteUintLE_def dest: peekEncode_sentinel)
  have write3: "WriteUint32BE g c vc = Some (Inr ((k, Some x), c')) \<longrightarrow> k = - 1"
    by (auto simp: WriteUint8_def WriteUint16BE_def WriteUint16LE_def WriteUint32BE_def WriteUint32LE_def WriteUint64BE_def WriteUint64LE_def WriteFloat32BE_def WriteFloat32LE_def WriteFloat64BE_def WriteFloat64LE_def WriteInt8_def WriteInt16BE_def WriteInt16LE_def WriteInt32BE_def WriteInt32LE_def WriteInt64BE_def WriteInt64LE_def WriteUintBE_def WriteUintLE_def dest: peekEncode_sentinel)
  have write4: "WriteUint32LE g c vc = Some (Inr ((k, Some x), c')) \<longrightarrow> k = - 1"
    by (auto simp: WriteUint8_def WriteUint16BE_def WriteUint16LE_def WriteUint32BE_def WriteUint32LE_def WriteUint64BE_def WriteUint64LE_def WriteFloat32BE_def WriteFloat32LE_def WriteFloat64BE_def WriteFloat64LE_def WriteInt8_def WriteInt16BE_def WriteInt16LE_def WriteInt32BE_def WriteInt32LE_def WriteInt64BE_def WriteInt64LE_def WriteUintBE_def WriteUintLE_def dest: peekEncode_sentinel)
  have write5: "WriteUint64BE g c vd = Some (Inr ((k, Some x), c')) \<longrightarrow> k = - 1"
    by (auto simp: WriteUint8_def WriteUint16BE_def WriteUint16LE_def WriteUint32BE_def WriteUint32LE_def WriteUint64BE_def WriteUint64LE_def WriteFloat32BE_def WriteFloat32LE_def WriteFloat64BE_def WriteFloat64LE_def WriteInt8_def WriteInt16BE_def WriteInt16LE_def WriteInt32BE_def WriteInt32LE_def WriteInt64BE_def WriteInt64LE_def WriteUintBE_def WriteUintLE_def dest: peekEncode_sentinel)
  have write6: "WriteUint64LE g c vd = Some (Inr ((k, Some x), c')) \<longrightarrow> k = - 1"
    by (auto simp: WriteUint8_def WriteUint16BE_def WriteUint16LE_def WriteUint32BE_def WriteUint32LE_def WriteUint64BE_def WriteUint64LE_def WriteFloat32BE_def WriteFloat32LE_def WriteFloat64BE_def WriteFloat64LE_def WriteInt8_def WriteInt16BE_def WriteInt16LE_def WriteInt32BE_def WriteInt32LE_def WriteInt64BE_def WriteInt64LE_def WriteUintBE_def WriteUintLE_def dest: peekEncode_sentinel)
  have write7: "WriteFloat32BE g c xc = Some (Inr ((k, Some x), c')) \<longrightarrow> k = - 1"
    by (auto simp: WriteUint8_def WriteUint16BE_def WriteUint16LE_def WriteUint32BE_def WriteUint32LE_def WriteUint64BE_def WriteUint64LE_def WriteFloat32BE_def WriteFloat32LE_def WriteFloat64BE_def WriteFloat64LE_def WriteInt8_def WriteInt16BE_def WriteInt16LE_def WriteInt32BE_def WriteInt32LE_def WriteInt64BE_def WriteInt64LE_def WriteUintBE_def WriteUintLE_def dest: peekEncode_sentinel)
  have write8: "WriteFloat32LE g c xc = Some (Inr ((k, Some x), c')) \<longrightarrow> k = - 1"
    by (auto simp: WriteUint8_def WriteUint16BE_def WriteUint16LE_def WriteUint32BE_def WriteUint32LE_def WriteUint64BE_def WriteUint64LE_def WriteFloat32BE_def WriteFloat32LE_def WriteFloat64BE_def WriteFloat64LE_def WriteInt8_def WriteInt16BE_def WriteInt16LE_def WriteInt32BE_def WriteInt32LE_def WriteInt64BE_def WriteInt64LE_def WriteUintBE_def WriteUintLE_def dest: peekEncode_sentinel)
  have write9: "WriteFloat64BE g c xd = Some (Inr ((k, Some x), c')) \<longrightarrow> k = - 1"
    by (auto simp: WriteUint8_def WriteUint16BE_def WriteUint16LE_def WriteUint32BE_def WriteUint32LE_def WriteUint64BE_def WriteUint64LE_def WriteFloat32BE_def WriteFloat32LE_def WriteFloat64BE_def WriteFloat64LE_def WriteInt8_def WriteInt16BE_def WriteInt16LE_def WriteInt32BE_def WriteInt32LE_def WriteInt64BE_def WriteInt64LE_def WriteUintBE_def WriteUintLE_def dest: peekEncode_sentinel)
  have write10: "WriteFloat64LE g c xd = Some (Inr ((k, Some x), c')) \<longrightarrow> k = - 1"
    by (auto simp: WriteUint8_def WriteUint16BE_def WriteUint16LE_def WriteUint32BE_def WriteUint32LE_def WriteUint64BE_def WriteUint64LE_def WriteFloat32BE_def WriteFloat32LE_def WriteFloat64BE_def WriteFloat64LE_def WriteInt8_def WriteInt16BE_def WriteInt16LE_def WriteInt32BE_def WriteInt32LE_def WriteInt64BE_def WriteInt64LE_def WriteUintBE_def WriteUintLE_def dest: peekEncode_sentinel)
  have write11: "WriteInt8 g c va = Some (Inr ((k, Some x), c')) \<longrightarrow> k = - 1"
    by (auto simp: WriteUint8_def WriteUint16BE_def WriteUint16LE_def WriteUint32BE_def WriteUint32LE_def WriteUint64BE_def WriteUint64LE_def WriteFloat32BE_def WriteFloat32LE_def WriteFloat64BE_def WriteFloat64LE_def WriteInt8_def WriteInt16BE_def WriteInt16LE_def WriteInt32BE_def WriteInt32LE_def WriteInt64BE_def WriteInt64LE_def WriteUintBE_def WriteUintLE_def dest: peekEncode_sentinel)
  have write12: "WriteInt16BE g c vb = Some (Inr ((k, Some x), c')) \<longrightarrow> k = - 1"
    by (auto simp: WriteUint8_def WriteUint16BE_def WriteUint16LE_def WriteUint32BE_def WriteUint32LE_def WriteUint64BE_def WriteUint64LE_def WriteFloat32BE_def WriteFloat32LE_def WriteFloat64BE_def WriteFloat64LE_def WriteInt8_def WriteInt16BE_def WriteInt16LE_def WriteInt32BE_def WriteInt32LE_def WriteInt64BE_def WriteInt64LE_def WriteUintBE_def WriteUintLE_def dest: peekEncode_sentinel)
  have write13: "WriteInt16LE g c vb = Some (Inr ((k, Some x), c')) \<longrightarrow> k = - 1"
    by (auto simp: WriteUint8_def WriteUint16BE_def WriteUint16LE_def WriteUint32BE_def WriteUint32LE_def WriteUint64BE_def WriteUint64LE_def WriteFloat32BE_def WriteFloat32LE_def WriteFloat64BE_def WriteFloat64LE_def WriteInt8_def WriteInt16BE_def WriteInt16LE_def WriteInt32BE_def WriteInt32LE_def WriteInt64BE_def WriteInt64LE_def WriteUintBE_def WriteUintLE_def dest: peekEncode_sentinel)
  have write14: "WriteInt32BE g c vc = Some (Inr ((k, Some x), c')) \<longrightarrow> k = - 1"
    by (auto simp: WriteUint8_def WriteUint16BE_def WriteUint16LE_def WriteUint32BE_def WriteUint32LE_def WriteUint64BE_def WriteUint64LE_def WriteFloat32BE_def WriteFloat32LE_def WriteFloat64BE_def WriteFloat64LE_def WriteInt8_def WriteInt16BE_def WriteInt16LE_def WriteInt32BE_def WriteInt32LE_def WriteInt64BE_def WriteInt64LE_def WriteUintBE_def WriteUintLE_def dest: peekEncode_sentinel)
  have write15: "WriteInt32LE g c vc = Some (Inr ((k, Some x), c')) \<longrightarrow> k = - 1"
    by (auto simp: WriteUint8_def WriteUint16BE_def WriteUint16LE_def WriteUint32BE_def WriteUint32LE_def WriteUint64BE_def WriteUint64LE_def WriteFloat32BE_def WriteFloat32LE_def WriteFloat64BE_def WriteFloat64LE_def WriteInt8_def WriteInt16BE_def WriteInt16LE_def WriteInt32BE_def WriteInt32LE_def WriteInt64BE_def WriteInt64LE_def WriteUintBE_def WriteUintLE_def dest: peekEncode_sentinel)
  have write16: "WriteInt64BE g c vd = Some (Inr ((k, Some x), c')) \<longrightarrow> k = - 1"
    by (auto simp: WriteUint8_def WriteUint16BE_def WriteUint16LE_def WriteUint32BE_def WriteUint32LE_def WriteUint64BE_def WriteUint64LE_def WriteFloat32BE_def WriteFloat32LE_def WriteFloat64BE_def WriteFloat64LE_def WriteInt8_def WriteInt16BE_def WriteInt16LE_def WriteInt32BE_def WriteInt32LE_def WriteInt64BE_def WriteInt64LE_def WriteUintBE_def WriteUintLE_def dest: peekEncode_sentinel)
  have write17: "WriteInt64LE g c vd = Some (Inr ((k, Some x), c')) \<longrightarrow> k = - 1"
    by (auto simp: WriteUint8_def WriteUint16BE_def WriteUint16LE_def WriteUint32BE_def WriteUint32LE_def WriteUint64BE_def WriteUint64LE_def WriteFloat32BE_def WriteFloat32LE_def WriteFloat64BE_def WriteFloat64LE_def WriteInt8_def WriteInt16BE_def WriteInt16LE_def WriteInt32BE_def WriteInt32LE_def WriteInt64BE_def WriteInt64LE_def WriteUintBE_def WriteUintLE_def dest: peekEncode_sentinel)
  have write18: "WriteUintBE g c vd = Some (Inr ((k, Some x), c')) \<longrightarrow> k = - 1"
    by (auto simp: WriteUint8_def WriteUint16BE_def WriteUint16LE_def WriteUint32BE_def WriteUint32LE_def WriteUint64BE_def WriteUint64LE_def WriteFloat32BE_def WriteFloat32LE_def WriteFloat64BE_def WriteFloat64LE_def WriteInt8_def WriteInt16BE_def WriteInt16LE_def WriteInt32BE_def WriteInt32LE_def WriteInt64BE_def WriteInt64LE_def WriteUintBE_def WriteUintLE_def dest: peekEncode_sentinel)
  have write19: "WriteUintLE g c vd = Some (Inr ((k, Some x), c')) \<longrightarrow> k = - 1"
    by (auto simp: WriteUint8_def WriteUint16BE_def WriteUint16LE_def WriteUint32BE_def WriteUint32LE_def WriteUint64BE_def WriteUint64LE_def WriteFloat32BE_def WriteFloat32LE_def WriteFloat64BE_def WriteFloat64LE_def WriteInt8_def WriteInt16BE_def WriteInt16LE_def WriteInt32BE_def WriteInt32LE_def WriteInt64BE_def WriteInt64LE_def WriteUintBE_def WriteUintLE_def dest: peekEncode_sentinel)
  show ?thesis
    by (intro conjI unsigned0 unsigned1 unsigned2 unsigned3 unsigned4 unsigned5 unsigned6 unsigned7 unsigned8 unsigned9 unsigned10 signed0 signed1 signed2 signed3 signed4 signed5 signed6 write0 write1 write2 write3 write4 write5 write6 write7 write8 write9 write10 write11 write12 write13 write14 write15 write16 write17 write18 write19)
qed

text \<open>
  The witness: every read helper on a Reader whose stream is at its end fails with
  \<open>EOF\<close>, every write helper on a Writer with a stored error fails with that error,
  with the values of the claim.
\<close>

theorem failure_sentinels_witness:
  "ReadUint8 scripted (NewReaderSize [] 16) = Inr ((0, Some EOF), NewReaderSize [] 16) \<and>
   ReadUint16BE scripted (NewReaderSize [] 16) = Inr ((0, Some EOF), NewReaderSize [] 16) \<and>
   ReadUint16LE scripted (NewReaderSize [] 16) = Inr ((0, Some EOF), NewReaderSize [] 16) \<and>
   ReadUint32BE scripted (NewReaderSize [] 16) = Inr ((0, Some EOF), NewReaderSize [] 16) \<and>
   ReadUint32LE scripted (NewReaderSize [] 16) = Inr ((0, Some EOF), NewReaderSize [] 16) \<and>
   ReadUint64BE scripted (NewReaderSize [] 16) = Inr ((0, Some EOF), NewReaderSize [] 16) \<and>
   ReadUint64LE scripted (NewReaderSize [] 16) = Inr ((0, Some EOF), NewReaderSize [] 16) \<and>
   ReadFloat32BE scripted (NewReaderSize [] 16) = Inr ((Float32frombits 0, Some EOF), NewReaderSize [] 16) \<and>
   ReadFloat32LE scripted (NewReaderSize [] 16) = Inr ((Float32frombits 0, Some EOF), NewReaderSize [] 16) \<and>
   ReadFloat64BE scripted (NewReaderSize [] 16) = Inr ((Float64frombits 0, Some EOF), NewReaderSize [] 16) \<and>
   ReadFloat64LE scripted (NewReaderSize [] 16) = Inr ((Float64frombits 0, Some EOF), NewReaderSize [] 16) \<and>
   ReadInt8 scripted (NewReaderSize [] 16) = Inr ((- 1, Some EOF), NewReaderSize [] 16) \<and>
   ReadInt16BE scripted (NewReaderSize [] 16) = Inr ((- 1, Some EOF), NewReaderSize [] 16) \<and>
   ReadInt16LE scripted (NewReaderSize [] 16) = Inr ((- 1, Some EOF), NewReaderSize [] 16) \<and>
   ReadInt32BE scripted (NewReaderSize [] 16) = Inr ((- 1, Some EOF), NewReaderSize [] 16) \<and>
   ReadInt32LE scripted (NewReaderSize [] 16) = Inr ((- 1, Some EOF), NewReaderSize [] 16) \<and>
   ReadInt64BE scripted (NewReaderSize [] 16) = Inr ((- 1, Some EOF), NewReaderSize [] 16) \<and>
   ReadInt64LE scripted (NewReaderSize [] 16) = Inr ((- 1, Some EOF), NewReaderSize [] 16) \<and>
   WriteUint8 scripted_sink broken_writer 7 = Some (Inr ((- 1, Some ErrShortWrite), broken_writer)) \<and>
   WriteUint16BE scripted_sink broken_writer 7 = Some (Inr ((- 1, Some ErrShortWrite), broken_writer)) \<and>
   WriteUint16LE scripted_sink broken_writer 7 = Some (Inr ((- 1, Some ErrShortWrite), broken_writer)) \<and>
   WriteUint32BE scripted_sink broken_writer 7 = Some (Inr ((- 1, Some ErrShortWrite), broken_writer)) \<and>
   WriteUint32LE scripted_sink broken_writer 7 = Some (Inr ((- 1, Some ErrShortWrite), broken_writer)) \<and>
   WriteUint64BE scripted_sink broken_writer 7 = Some (Inr ((- 1, Some ErrShortWrite), broken_writer)) \<and>
   WriteUint64LE scripted_sink broken_writer 7 = Some (Inr ((- 1, Some ErrShortWrite), broken_writer)) \<and>
   WriteFloat32BE scripted_sink broken_writer (Float32frombits 7) = Some (Inr ((- 1, Some ErrShortWrite), broken_writer)) \<and>
   WriteFloat32LE scripted_sink broken_writer (Float32frombits 7) = Some (Inr ((- 1, Some ErrShortWrite), broken_writer)) \<and>
   WriteFloat64BE scripted_sink broken_writer (Float64frombits 7) = Some (Inr ((- 1, Some ErrShortWrite), broken_writer)) \<and>
   WriteFloat64LE scripted_sink broken_writer (Float64frombits 7) = Some (Inr ((- 1, Some ErrShortWrite), broken_writer)) \<and>
   WriteInt8 scripted_sink broken_writer 7 = Some (Inr ((- 1, Some ErrShortWrite), broken_writer)) \<and>
   WriteInt16BE scripted_sink broken_writer 7 = Some (Inr ((- 1, Some ErrShortWrite), broken_writer)) \<and>
   WriteInt16LE scripted_sink broken_writer 7 = Some (Inr ((- 1, Some ErrShortWrite), broken_writer)) \<and>
   WriteInt32BE scripted_sink broken_writer 7 = Some (Inr ((- 1, Some ErrShortWrite), broken_writer)) \<and>
   WriteInt32LE scripted_sink broken_writer 7 = Some (Inr ((- 1, Some ErrShortWrite), broken_writer)) \<and>
   WriteInt64BE scripted_sink broken_writer 7 = Some (Inr ((- 1, Some ErrShortWrite), broken_writer)) \<and>
   WriteInt64LE scripted_sink broken_writer 7 = Some (Inr ((- 1, Some ErrShortWrite), broken_writer)) \<and>
   WriteUintBE scripted_sink broken_writer 7 = Some (Inr ((- 1, Some ErrShortWrite), broken_writer)) \<and>
   WriteUintLE scripted_sink broken_writer 7 = Some (Inr ((- 1, Some ErrShortWrite), broken_writer))"
proof -
  have ev: "ReadUint8 scripted (NewReaderSize [] 16) = Inr ((0, Some EOF), NewReaderSize [] 16)"
    "ReadUint16BE scripted (NewReaderSize [] 16) = Inr ((0, Some EOF), NewReaderSize [] 16)"
    "ReadUint16LE scripted (NewReaderSize [] 16) = Inr ((0, Some EOF), NewReaderSize [] 16)"
    "ReadUint32BE scripted (NewReaderSize [] 16) = Inr ((0, Some EOF), NewReaderSize [] 16)"
    "ReadUint32LE scripted (NewReaderSize [] 16) = Inr ((0, Some EOF), NewReaderSize [] 16)"
    "ReadUint64BE scripted (NewReaderSize [] 16) = Inr ((0, Some EOF), NewReaderSize [] 16)"
    "ReadUint64LE scripted (NewReaderSize [] 16) = Inr ((0, Some EOF), NewReaderSize [] 16)"
    "ReadFloat32BE scripted (NewReaderSize [] 16) = Inr ((Float32frombits 0, Some EOF), NewReaderSize [] 16)"
    "ReadFloat32LE scripted (NewReaderSize [] 16) = Inr ((Float32frombits 0, Some EOF), NewReaderSize [] 16)"
    "ReadFloat64BE scripted (NewReaderSize [] 16) = Inr ((Float64frombits 0, Some EOF), NewReaderSize [] 16)"
    "ReadFloat64LE scripted (NewReaderSize [] 16) = Inr ((Float64frombits 0, Some EOF), NewReaderSize [] 16)"
    "ReadInt8 scripted (NewReaderSize [] 16) = Inr ((- 1, Some EOF), NewReaderSize [] 16)"
    "ReadInt16BE scripted (NewReaderSize [] 16) = Inr ((- 1, Some EOF), NewReaderSize [] 16)"
    "ReadInt16LE scripted (NewReaderSize [] 16) = Inr ((- 1, Some EOF), NewReaderSize [] 16)"
    "ReadInt32BE scripted (NewReaderSize [] 16) = Inr ((- 1, Some EOF), NewReaderSize [] 16)"
    "ReadInt32LE scripted (NewReaderSize [] 16) = Inr ((- 1, Some EOF), NewReaderSize [] 16)"
    "ReadInt64BE scripted (NewReaderSize [] 16) = Inr ((- 1, Some EOF), NewReaderSize [] 16)"
    "ReadInt64LE scripted (NewReaderSize [] 16) = Inr ((- 1, Some EOF), NewReaderSize [] 16)"
    "WriteUint8 scripted_sink broken_writer 7 = Some (Inr ((- 1, Some ErrShortWrite), broken_writer))"
    "WriteUint16BE scripted_sink broken_writer 7 = Some (Inr ((- 1, Some ErrShortWrite), broken_writer))"
    "WriteUint16LE scripted_sink broken_writer 7 = Some (Inr ((- 1, Some ErrShortWrite), broken_writer))"
    "WriteUint32BE scripted_sink broken_writer 7 = Some (Inr ((- 1, Some ErrShortWrite), broken_writer))"
    "WriteUint32LE scripted_sink broken_writer 7 = Some (Inr ((- 1, Some ErrShortWrite), broken_writer))"
    "WriteUint64BE scripted_sink broken_writer 7 = Some (Inr ((- 1, Some ErrShortWrite), broken_writer))"
    "WriteUint64LE scripted_sink broken_writer 7 = Some (Inr ((- 1, Some ErrShortWrite), broken_writer))"
    "WriteFloat32BE scripted_sink broken_writer (Float32frombits 7) = Some (Inr ((- 1, Some ErrShortWrite), broken_writer))"
    "WriteFloat32LE scripted_sink broken_writer (Float32frombits 7) = Some (Inr ((- 1, Some ErrShortWrite), broken_writer))"
    "WriteFloat64BE scripted_sink broken_writer (Float64frombits 7) = Some (Inr ((- 1, Some ErrShortWrite), broken_writer))"
    "WriteFloat64LE scripted_sink broken_writer (Float64frombits 7) = Some (Inr ((- 1, Some ErrShortWrite), broken_writer))"
    "WriteInt8 scripted_sink broken_writer 7 = Some (Inr ((- 1, Some ErrShortWrite), broken_writer))"
    "WriteInt16BE scripted_sink broken_writer 7 = Some (Inr ((- 1, Some ErrShortWrite), broken_writer))"
    "WriteInt16LE scripted_sink broken_writer 7 = Some (Inr ((- 1, Some ErrShortWrite), broken_writer))"
    "WriteInt32BE scripted_sink broken_writer 7 = Some (Inr ((- 1, Some ErrShortWrite), broken_writer))"
    "WriteInt32LE scripted_sink broken_writer 7 = Some (Inr ((- 1, Some ErrShortWrite), broken_writer))"
    "WriteInt64BE scripted_sink broken_writer 7 = Some (Inr ((- 1, Some ErrShortWrite), broken_writer))"
    "WriteInt64LE scripted_sink broken_writer 7 = Some (Inr ((- 1, Some ErrShortWrite), broken_writer))"
    "WriteUintBE scripted_sink broken_writer 7 = Some (Inr ((- 1, Some ErrShortWrite), broken_writer))"
    "WriteUintLE scripted_sink broken_writer 7 = Some (Inr ((- 1, Some ErrShortWrite), broken_writer))"
    by code_simp+
  show ?thesis
    using failure_sentinels [where f = scripted and b = "NewReaderSize [] 16" and b' = "NewReaderSize [] 16" and e = EOF and ua = 0 and ub = 0 and uc = 0 and ud = 0 and fc = "Float32frombits 0" and fd = "Float64frombits 0" and sa = "- 1" and sb = "- 1" and sc = "- 1" and sd = "- 1" and g = scripted_sink and c = broken_writer and c' = broken_writer and x = ErrShortWrite and k = "- 1" and va = 7 and vb = 7 and vc = 7 and vd = 7 and xc = "Float32frombits 7" and xd = "Float64frombits 7"] ev
    by simp
qed






end
